theory Spec2Isabelle
  imports Complex_Main "HOL-Library.Sublist"
begin

section \<open>JavaScript values\<close>

text \<open>
  A JavaScript number is \<open>NaN\<close> or a finite value. Finite doubles are idealised as reals:
  rounding, the two zeros and the infinities are outside this model.
\<close>

datatype jsnum = NaN | Fin real

text \<open>
  A cell of a record: the spec's \<open>null | number | string\<close>, together with \<open>undefined\<close>
  (what reading an absent property gives) and the booleans that the flag method writes.
\<close>

datatype cell = Null | Undefined | Num jsnum | Str string | Bool bool

datatype js_error = TypeError | ReferenceError

text \<open>
  The built-ins of the host that the code calls and that are not part of the repository:
  \<open>Number\<close> and \<open>String\<close> on the cases that need a number grammar, \<open>Date.parse\<close>,
  \<open>JSON.stringify\<close> of a row, and the search of the fuse.js index (items with their
  scores, best first). Every theorem below holds for any choice of them.
\<close>

record js_builtins =
  str_to_number :: "string \<Rightarrow> jsnum"
  number_to_str :: "real \<Rightarrow> string"
  date_parse :: "string \<Rightarrow> jsnum"
  json_stringify :: "cell list \<Rightarrow> string"
  fuse_search :: "string list \<Rightarrow> string \<Rightarrow> (string \<times> real) list"

text \<open>\<open>Number(v)\<close>.\<close>

fun Number :: "js_builtins \<Rightarrow> cell \<Rightarrow> jsnum" where
  "Number js Null = Fin 0"
| "Number js Undefined = NaN"
| "Number js (Num n) = n"
| "Number js (Str s) = str_to_number js s"
| "Number js (Bool b) = Fin (if b then 1 else 0)"

text \<open>The global \<open>isNaN(v)\<close>, which converts its argument with \<open>Number\<close> first.\<close>

definition isNaN :: "js_builtins \<Rightarrow> cell \<Rightarrow> bool" where
  "isNaN js v = (Number js v = NaN)"

text \<open>\<open>String(v)\<close>.\<close>

fun String_of :: "js_builtins \<Rightarrow> cell \<Rightarrow> string" where
  "String_of js Null = ''null''"
| "String_of js Undefined = ''undefined''"
| "String_of js (Num NaN) = ''NaN''"
| "String_of js (Num (Fin x)) = number_to_str js x"
| "String_of js (Str s) = s"
| "String_of js (Bool b) = (if b then ''true'' else ''false'')"

text \<open>Strict equality \<open>a === b\<close>: \<open>NaN\<close> is not equal to itself.\<close>

fun strict_eq :: "cell \<Rightarrow> cell \<Rightarrow> bool" where
  "strict_eq Null Null = True"
| "strict_eq Undefined Undefined = True"
| "strict_eq (Num a) (Num b) = (a \<noteq> NaN \<and> b \<noteq> NaN \<and> a = b)"
| "strict_eq (Str a) (Str b) = (a = b)"
| "strict_eq (Bool a) (Bool b) = (a = b)"
| "strict_eq _ _ = False"

text \<open>Truthiness, as \<open>if (v)\<close> and \<open>v || w\<close> test it.\<close>

fun truthy :: "cell \<Rightarrow> bool" where
  "truthy Null = False"
| "truthy Undefined = False"
| "truthy (Num NaN) = False"
| "truthy (Num (Fin x)) = (x \<noteq> 0)"
| "truthy (Str s) = (s \<noteq> [])"
| "truthy (Bool b) = b"

text \<open>A record of the dataset is an object; reading an absent property gives \<open>undefined\<close>.\<close>

type_synonym jsobject = "string \<rightharpoonup> cell"

definition get_cell :: "jsobject \<Rightarrow> string \<Rightarrow> cell" where
  "get_cell r c = (case r c of None \<Rightarrow> Undefined | Some v \<Rightarrow> v)"

text \<open>
  \<open>records.map(cb)\<close> where the callback also adds to a counter of the enclosing
  function (\<open>changed\<close>) and may throw: the records are visited in order, the counter is
  threaded through, and the first exception ends the loop.
\<close>

fun map_count :: "('a \<Rightarrow> js_error + ('b \<times> nat)) \<Rightarrow> 'a list \<Rightarrow> nat \<Rightarrow> js_error + ('b list \<times> nat)" where
  "map_count cb [] changed = Inr ([], changed)"
| "map_count cb (r # rs) changed =
     (case cb r of
        Inl e \<Rightarrow> Inl e
      | Inr (copy, d) \<Rightarrow>
          (case map_count cb rs (changed + d) of
             Inl e \<Rightarrow> Inl e
           | Inr (copies, changed') \<Rightarrow> Inr (copy # copies, changed')))"

section \<open>Transformations (Cleaner/transformations.js)\<close>

datatype evidence =
    Reason string
  | CoerceEvidence (before_sample: "cell list") (changed_count: nat)
  | FillEvidence (before_records: "cell list") (changed_count: nat) (filled_value: cell)
  | ClipEvidence (ev_method: cell) (ev_lower: real) (ev_upper: real) (changed_count: nat)
  | FlagEvidence (ev_method: cell) (ev_lower: real) (ev_upper: real) (flagged_count: nat)
  | RemoveEvidence (ev_method: cell) (ev_lower: real) (ev_upper: real) (removed_count: nat)

text \<open>\<open>'reason' in evidence\<close>.\<close>

fun has_reason :: "evidence \<Rightarrow> bool" where
  "has_reason (Reason s) = True"
| "has_reason _ = False"

subsection \<open>CoerceNumeric\<close>

text \<open>The callback of \<open>records.map\<close> in \<open>CoerceNumeric.apply\<close>: the copy and what it adds to \<open>changed\<close>.\<close>

definition coerce_numeric_cb :: "js_builtins \<Rightarrow> string \<Rightarrow> jsobject \<Rightarrow> jsobject \<times> nat" where
  "coerce_numeric_cb js column r =
     (let copy = r;
          v = get_cell copy column;
          num = (if strict_eq v Null \<or> strict_eq v Undefined \<or> strict_eq v (Str [])
                 then Null else Num (Number js v));
          d = (if \<not> strict_eq v num \<and> \<not> (strict_eq v Null \<and> strict_eq num Null)
               then (if strict_eq num v then 0 else 1) else 0)
      in (copy(column \<mapsto> (if isNaN js num then Null else num)), d))"

definition CoerceNumeric_apply ::
    "js_builtins \<Rightarrow> string \<Rightarrow> jsobject list \<Rightarrow> js_error + (jsobject list \<times> evidence)" where
  "CoerceNumeric_apply js column records =
     (let beforeSample = map (\<lambda>r. get_cell r column) (take 5 records) in
      case map_count (\<lambda>r. Inr (coerce_numeric_cb js column r)) records 0 of
        Inl e \<Rightarrow> Inl e
      | Inr (newRecords, changed) \<Rightarrow> Inr (newRecords, CoerceEvidence beforeSample changed))"

subsection \<open>CoerceDatetime\<close>

text \<open>
  The callback of \<open>CoerceDatetime.apply\<close>. When \<open>isNaN(parsed)\<close> is false the code
  evaluates \<open>new Date.parse(parsed)\<close>; \<open>Date.parse\<close> is not a constructor, so this throws
  a TypeError. \<open>isNaN(null)\<close> is false, so an empty cell takes that branch too.
\<close>

definition coerce_datetime_cb :: "js_builtins \<Rightarrow> string \<Rightarrow> jsobject \<Rightarrow> js_error + (jsobject \<times> nat)" where
  "coerce_datetime_cb js column r =
     (let copy = r;
          v = get_cell copy column;
          parsed = (if strict_eq v Null \<or> strict_eq v Undefined \<or> strict_eq v (Str [])
                    then Null else Num (date_parse js (String_of js v)))
      in if isNaN js parsed
         then (let out = Null;
                   d = (if String_of js parsed \<noteq> String_of js out then 1 else 0)
               in Inr (copy(column \<mapsto> out), d))
         else Inl TypeError)"

definition CoerceDatetime_apply ::
    "js_builtins \<Rightarrow> string \<Rightarrow> jsobject list \<Rightarrow> js_error + (jsobject list \<times> evidence)" where
  "CoerceDatetime_apply js column records =
     (let beforeSample = map (\<lambda>r. get_cell r column) (take 5 records) in
      case map_count (coerce_datetime_cb js column) records 0 of
        Inl e \<Rightarrow> Inl e
      | Inr (newRecords, changed) \<Rightarrow> Inr (newRecords, CoerceEvidence beforeSample changed))"

subsection \<open>FillMissing\<close>

text \<open>
  \<open>params\<close> of FillMissing. \<open>fill_strategy\<close> and \<open>fill_value\<close> are \<open>Undefined\<close> when the caller left
  them out; the destructuring default then makes the strategy \<open>"mean"\<close>.
\<close>

record fill_params =
  fill_column :: string
  fill_strategy :: cell
  fill_value :: cell

text \<open>The non-numeric values dropped, the rest as reals: \<open>values.map(Number).filter((x) => !isNaN(x))\<close>.\<close>

fun numbers_of :: "jsnum list \<Rightarrow> real list" where
  "numbers_of [] = []"
| "numbers_of (NaN # ns) = numbers_of ns"
| "numbers_of (Fin x # ns) = x # numbers_of ns"

text \<open>The test FillMissing uses for an empty cell, in both of its passes.\<close>

definition is_blank :: "cell \<Rightarrow> bool" where
  "is_blank v = (strict_eq v Null \<or> strict_eq v Undefined \<or> strict_eq v (Str []))"

text \<open>
  The fill value. The class body is strict-mode code and \<open>freq\<close> is declared nowhere, so
  the assignment \<open>freq = {}\<close> that opens the mode branch throws a ReferenceError. Any
  strategy other than mean, median and mode leaves \<open>fillValue = value\<close>.
\<close>

definition compute_fill :: "js_builtins \<Rightarrow> fill_params \<Rightarrow> jsobject list \<Rightarrow> js_error + cell" where
  "compute_fill js p records =
     (let column = fill_column p;
          strategy = (if fill_strategy p = Undefined then Str ''mean'' else fill_strategy p);
          vals = filter (\<lambda>v. \<not> is_blank v) (map (\<lambda>r. get_cell r column) records)
      in if strategy = Str ''mean'' then
           (let nums = numbers_of (map (Number js) vals)
            in Inr (if length nums \<noteq> 0 then Num (Fin (foldl (+) 0 nums / real (length nums))) else Null))
         else if strategy = Str ''median'' then
           (let nums = sort (numbers_of (map (Number js) vals))
            in Inr (if length nums \<noteq> 0 then Num (Fin (nums ! nat \<lfloor>real (length nums) / 2\<rfloor>)) else Null))
         else if strategy = Str ''mode'' then Inl ReferenceError
         else Inr (fill_value p))"

definition fill_missing_cb :: "string \<Rightarrow> cell \<Rightarrow> jsobject \<Rightarrow> jsobject \<times> nat" where
  "fill_missing_cb column fillValue r =
     (let copy = r in
      if is_blank (get_cell copy column) then (copy(column \<mapsto> fillValue), 1) else (copy, 0))"

definition FillMissing_apply ::
    "js_builtins \<Rightarrow> fill_params \<Rightarrow> jsobject list \<Rightarrow> js_error + (jsobject list \<times> evidence)" where
  "FillMissing_apply js p records =
     (case compute_fill js p records of
        Inl e \<Rightarrow> Inl e
      | Inr fillValue \<Rightarrow>
          (let beforeRecords = map (\<lambda>r. get_cell r (fill_column p)) (take 5 records) in
           case map_count (\<lambda>r. Inr (fill_missing_cb (fill_column p) fillValue r)) records 0 of
             Inl e \<Rightarrow> Inl e
           | Inr (newRecords, changed) \<Rightarrow>
               Inr (newRecords, FillEvidence beforeRecords changed fillValue)))"

subsection \<open>ClipOutliersIQR\<close>

text \<open>
  \<open>params\<close> of ClipOutliersIQR. \<open>clip_k\<close> and \<open>flag_column_name\<close> are \<open>None\<close>, and
  \<open>clip_method\<close> is \<open>Undefined\<close>, when the caller left them out; a given \<open>k\<close> is a finite number.
\<close>

record clip_params =
  clip_column :: string
  clip_k :: "real option"
  clip_method :: cell
  flag_column_name :: "string option"

text \<open>The nearest-rank quartiles of the sorted numeric values, as both IQR computations take them.\<close>

definition quartile1 :: "real list \<Rightarrow> real" where
  "quartile1 nums = nums ! nat \<lfloor>real (length nums) * 0.25\<rfloor>"

definition quartile3 :: "real list \<Rightarrow> real" where
  "quartile3 nums = nums ! nat \<lfloor>real (length nums) * 0.75\<rfloor>"

text \<open>The numeric values of the column in \<open>ClipOutliersIQR.apply\<close>, before sorting.\<close>

definition clip_nums :: "js_builtins \<Rightarrow> string \<Rightarrow> jsobject list \<Rightarrow> real list" where
  "clip_nums js column records = numbers_of (map (\<lambda>r. Number js (get_cell r column)) records)"

text \<open>\<open>lower\<close> and \<open>upper\<close> of \<open>ClipOutliersIQR.apply\<close>, from the sorted values.\<close>

definition clip_bounds :: "real \<Rightarrow> real list \<Rightarrow> real \<times> real" where
  "clip_bounds k nums =
     (let q1 = quartile1 nums;
          q3 = quartile3 nums;
          iqr = q3 - q1;
          lower = q1 - k * iqr;
          upper = q1 + k * iqr
      in (lower, upper))"

text \<open>\<open>!isNaN(v) && (v < lower || v > upper)\<close>.\<close>

fun out_of_range :: "real \<Rightarrow> real \<Rightarrow> jsnum \<Rightarrow> bool" where
  "out_of_range lower upper NaN = False"
| "out_of_range lower upper (Fin x) = (x < lower \<or> x > upper)"

definition clip_cb :: "js_builtins \<Rightarrow> string \<Rightarrow> real \<Rightarrow> real \<Rightarrow> jsobject \<Rightarrow> jsobject \<times> nat" where
  "clip_cb js column lower upper r =
     (let copy = r; v = Number js (get_cell copy column) in
      case v of
        Fin x \<Rightarrow> if x < lower \<or> x > upper
                 then (copy(column \<mapsto> Num (Fin (max (min x upper) lower))), 1)
                 else (copy, 0)
      | NaN \<Rightarrow> (copy, 0))"

definition flag_cb :: "js_builtins \<Rightarrow> string \<Rightarrow> string \<Rightarrow> real \<Rightarrow> real \<Rightarrow> jsobject \<Rightarrow> jsobject \<times> nat" where
  "flag_cb js column flag_name lower upper r =
     (let copy = r;
          v = Number js (get_cell copy column);
          flag = (if out_of_range lower upper v then Bool True
                  else if truthy (get_cell copy flag_name) then get_cell copy flag_name else Bool False);
          copy' = copy(flag_name \<mapsto> flag)
      in (copy', if truthy (get_cell copy' flag_name) then 1 else 0))"

definition remove_keeps :: "js_builtins \<Rightarrow> string \<Rightarrow> real \<Rightarrow> real \<Rightarrow> jsobject \<Rightarrow> bool" where
  "remove_keeps js column lower upper r =
     (case Number js (get_cell r column) of
        NaN \<Rightarrow> True
      | Fin x \<Rightarrow> x \<ge> lower \<and> x \<le> upper)"

definition ClipOutliersIQR_apply ::
    "js_builtins \<Rightarrow> clip_params \<Rightarrow> jsobject list \<Rightarrow> js_error + (jsobject list \<times> evidence)" where
  "ClipOutliersIQR_apply js p records =
     (let column = clip_column p;
          k = (case clip_k p of None \<Rightarrow> 1.5 | Some k' \<Rightarrow> k');
          method = (if clip_method p = Undefined then Str ''clip'' else clip_method p);
          flag_name = (case flag_column_name p of None \<Rightarrow> ''_outliers'' | Some f \<Rightarrow> f);
          nums = clip_nums js column records
      in if length nums < 5 then Inr (records, Reason ''not_enough_numeric'')
         else
           (let (lower, upper) = clip_bounds k (sort nums) in
            if method = Str ''clip'' then
              (case map_count (\<lambda>r. Inr (clip_cb js column lower upper r)) records 0 of
                 Inl e \<Rightarrow> Inl e
               | Inr (newRecords, changed) \<Rightarrow> Inr (newRecords, ClipEvidence method lower upper changed))
            else if method = Str ''flag'' then
              (case map_count (\<lambda>r. Inr (flag_cb js column flag_name lower upper r)) records 0 of
                 Inl e \<Rightarrow> Inl e
               | Inr (newRecords, changed) \<Rightarrow> Inr (newRecords, FlagEvidence method lower upper changed))
            else if method = Str ''remove'' then
              (let kept = filter (remove_keeps js column lower upper) records;
                   removed = length records - length kept
               in Inr (kept, RemoveEvidence method lower upper removed))
            else Inr (records, Reason ''unknown_method'')))"

subsection \<open>The Transformation objects\<close>

text \<open>The class of a transformation object together with its \<open>params\<close>.\<close>

datatype variant =
    VCoerceNumeric string
  | VCoerceDatetime string
  | VFillMissing fill_params
  | VClipOutliersIQR clip_params

text \<open>The fields the constructors set (the \<open>id\<close>, a fresh UUID, is left out).\<close>

record transformation =
  name :: string
  params :: variant
  destructive :: bool

definition Transformation :: "string \<Rightarrow> variant \<Rightarrow> bool \<Rightarrow> transformation" where
  "Transformation n p d = \<lparr>name = n, params = p, destructive = d\<rparr>"

definition CoerceNumeric :: "string \<Rightarrow> transformation" where
  "CoerceNumeric column = Transformation ''coerce_numeric'' (VCoerceNumeric column) False"

definition CoerceDatetime :: "string \<Rightarrow> transformation" where
  "CoerceDatetime column = Transformation ''coerce_datetime'' (VCoerceDatetime column) False"

definition FillMissing :: "fill_params \<Rightarrow> transformation" where
  "FillMissing p = Transformation ''fill_missing'' (VFillMissing p) False"

definition ClipOutliersIQR :: "clip_params \<Rightarrow> transformation" where
  "ClipOutliersIQR p =
     (let destr = strict_eq (clip_method p) (Str ''remove'')
      in Transformation ''clip_outliers_iqr'' (VClipOutliersIQR p) destr)"

text \<open>\<open>apply\<close> by the class of the object.\<close>

fun apply_v :: "js_builtins \<Rightarrow> variant \<Rightarrow> jsobject list \<Rightarrow> js_error + (jsobject list \<times> evidence)" where
  "apply_v js (VCoerceNumeric column) records = CoerceNumeric_apply js column records"
| "apply_v js (VCoerceDatetime column) records = CoerceDatetime_apply js column records"
| "apply_v js (VFillMissing p) records = FillMissing_apply js p records"
| "apply_v js (VClipOutliersIQR p) records = ClipOutliersIQR_apply js p records"

text \<open>
  \<open>t.apply(records)\<close> with the object passed through: every \<open>apply\<close> reads \<open>this.params\<close>
  and assigns no field of \<open>this\<close>.
\<close>

definition apply_method ::
    "js_builtins \<Rightarrow> transformation \<Rightarrow> jsobject list \<Rightarrow> transformation \<times> (js_error + (jsobject list \<times> evidence))" where
  "apply_method js this records = (this, apply_v js (params this) records)"

section \<open>Analyzer (the class of src/unnamed/part_001, also the live half of part_000)\<close>

subsection \<open>String helpers\<close>

text \<open>\<open>\d\<close>, and the ASCII part of what \<open>trim\<close> strips and \<open>toLowerCase\<close> maps.\<close>

definition is_digit :: "char \<Rightarrow> bool" where
  "is_digit c = (c \<in> set ''0123456789'')"

definition is_space :: "char \<Rightarrow> bool" where
  "is_space c = (c \<in> set [CHR '' '', CHR 0x09, CHR 0x0A, CHR 0x0B, CHR 0x0C, CHR 0x0D])"

definition trim :: "string \<Rightarrow> string" where
  "trim s = rev (dropWhile is_space (rev (dropWhile is_space s)))"

definition toLowerCase :: "string \<Rightarrow> string" where
  "toLowerCase s =
     map (\<lambda>c. case map_of (zip ''ABCDEFGHIJKLMNOPQRSTUVWXYZ'' ''abcdefghijklmnopqrstuvwxyz'') c of
                Some l \<Rightarrow> l
              | None \<Rightarrow> c) s"

text \<open>\<open>/^\d{4,}$/.test(v)\<close>.\<close>

definition is_long_digits :: "string \<Rightarrow> bool" where
  "is_long_digits v = (length v \<ge> 4 \<and> list_all is_digit v)"

text \<open>\<open>/^[-+]?\d+(?:\.\d+)?$/.test(v)\<close>.\<close>

definition is_decimal :: "string \<Rightarrow> bool" where
  "is_decimal v =
     (let ip = takeWhile is_digit v; rest = dropWhile is_digit v
      in ip \<noteq> [] \<and>
         (rest = [] \<or> (hd rest = CHR ''.'' \<and> tl rest \<noteq> [] \<and> list_all is_digit (tl rest))))"

fun isStrictNumber :: "string \<Rightarrow> bool" where
  "isStrictNumber [] = False"
| "isStrictNumber (c # cs) =
     (if c = CHR ''-'' \<or> c = CHR ''+'' then is_decimal cs else is_decimal (c # cs))"

definition isValidDate :: "js_builtins \<Rightarrow> string \<Rightarrow> bool" where
  "isValidDate js v = (if is_long_digits v then False else date_parse js v \<noteq> NaN)"

text \<open>The values of \<open>new Set(xs)\<close> in insertion order; its \<open>size\<close> is the length.\<close>

fun Set_add :: "'a list \<Rightarrow> 'a list \<Rightarrow> 'a list" where
  "Set_add seen [] = seen"
| "Set_add seen (x # xs) = (if x \<in> set seen then Set_add seen xs else Set_add (seen @ [x]) xs)"

definition new_Set :: "'a list \<Rightarrow> 'a list" where
  "new_Set xs = Set_add [] xs"

subsection \<open>The data frame and the issues\<close>

text \<open>
  The part of a danfo DataFrame the class reads: \<open>df.columns\<close>, \<open>df.values\<close> (the rows)
  and \<open>df.shape[0]\<close>; \<open>df[col]\<close> is the column of \<open>df.values\<close> under that name.
\<close>

record dataframe =
  columns :: "string list"
  df_values :: "cell list list"

definition nth_cell :: "cell list \<Rightarrow> nat \<Rightarrow> cell" where
  "nth_cell row i = (if i < length row then row ! i else Undefined)"

fun index_of :: "'a list \<Rightarrow> 'a \<Rightarrow> nat option" where
  "index_of [] c = None"
| "index_of (x # xs) c = (if x = c then Some 0 else map_option Suc (index_of xs c))"

text \<open>\<open>this._seriesValues(this.df[col])\<close>: the empty array when there is no such column.\<close>

definition seriesValues :: "dataframe \<Rightarrow> string \<Rightarrow> cell list" where
  "seriesValues df col =
     (case index_of (columns df) col of
        None \<Rightarrow> []
      | Some i \<Rightarrow> map (\<lambda>row. nth_cell row i) (df_values df))"

definition shape0 :: "dataframe \<Rightarrow> nat" where
  "shape0 df = length (df_values df)"

datatype issue_evidence =
    MissingPct real
  | MissingFraction real
  | DuplicateCount nat
  | UniqueFraction real
  | OutlierEvidence real real nat
  | FailedFraction real
  | Clusters "string list list"
  | Examples "cell list"

text \<open>An Issue without its \<open>id\<close> (a fresh UUID) and its \<open>timestamp\<close> (the clock).\<close>

record Issue =
  scope :: string
  issue_column :: "string option"
  issue_rows :: "nat list"
  issue_type :: string
  severity :: string
  score :: real
  issue_evidence :: issue_evidence
  suggestedFix :: "string option"

definition issue ::
    "string \<Rightarrow> string option \<Rightarrow> nat list \<Rightarrow> string \<Rightarrow> string \<Rightarrow> real \<Rightarrow> issue_evidence \<Rightarrow> string option \<Rightarrow> Issue" where
  "issue sc col rws ty sev s ev fix =
     \<lparr>scope = sc, issue_column = col, issue_rows = rws, issue_type = ty, severity = sev,
      score = s, issue_evidence = ev, suggestedFix = fix\<rparr>"

record config =
  col_missing_threshold :: real
  row_missing_threshold :: real
  pk_uniqueness_threshold :: real
  numeric_parse_fraction :: real
  outlier_iqr_k :: real
  categorical_fuzzy_ratio :: real

definition CONFIG :: config where
  "CONFIG = \<lparr>col_missing_threshold = 0.2, row_missing_threshold = 0.5,
             pk_uniqueness_threshold = 0.98, numeric_parse_fraction = 0.9,
             outlier_iqr_k = 1.5, categorical_fuzzy_ratio = 0.85\<rparr>"

subsection \<open>Schema inference\<close>

text \<open>\<open>v !== null && v !== undefined && String(v).trim() !== ""\<close>.\<close>

definition non_null :: "js_builtins \<Rightarrow> cell \<Rightarrow> bool" where
  "non_null js v = (v \<noteq> Null \<and> v \<noteq> Undefined \<and> trim (String_of js v) \<noteq> [])"

definition inferColumnType :: "js_builtins \<Rightarrow> cell list \<Rightarrow> string" where
  "inferColumnType js series =
     (let vals = filter (non_null js) series in
      if length vals = 0 then ''empty''
      else
        (let sample = map (\<lambda>v. trim (String_of js v)) (take 300 vals);
             dateCount = length (filter (isValidDate js) sample);
             numCount = length (filter isStrictNumber sample)
         in if length sample > 0 \<and> real dateCount / real (length sample) \<ge> 0.9 then ''datetime''
            else if length sample > 0 \<and> real numCount / real (length sample) \<ge> 0.9 then ''numeric''
            else ''string''))"

record column_profile =
  inferred_type :: string
  missing_count :: nat
  missing_pct :: real
  nunique :: nat
  example_values :: "cell list"

definition inferSchema :: "js_builtins \<Rightarrow> dataframe \<Rightarrow> (string \<times> column_profile) list" where
  "inferSchema js df =
     map (\<lambda>col.
            (let arr = seriesValues df col;
                 nonNull = filter (non_null js) arr;
                 mc = length (filter (\<lambda>v. \<not> non_null js v) arr)
             in (col, \<lparr>inferred_type = inferColumnType js arr,
                       missing_count = mc,
                       missing_pct = (if length arr = 0 then 0 else real mc / real (length arr)),
                       nunique = length (new_Set (map (String_of js) nonNull)),
                       example_values = take 5 nonNull\<rparr>)))
         (columns df)"

subsection \<open>Missing values\<close>

fun typeof :: "cell \<Rightarrow> string" where
  "typeof Null = ''object''"
| "typeof Undefined = ''undefined''"
| "typeof (Num n) = ''number''"
| "typeof (Str s) = ''string''"
| "typeof (Bool b) = ''boolean''"

definition isMissing :: "js_builtins \<Rightarrow> cell \<Rightarrow> bool" where
  "isMissing js v =
     (v = Null \<or> v = Undefined \<or> trim (String_of js v) = [] \<or>
      (typeof v = ''number'' \<and> v = Num NaN) \<or>
      (typeof v = ''string'' \<and>
       toLowerCase (trim (String_of js v)) \<in> set [''na'', ''n/a'', ''-'', ''null'']))"

text \<open>The indices \<open>i\<close> of an array with \<open>p(xs[i])\<close>, in order.\<close>

definition indices_where :: "('a \<Rightarrow> bool) \<Rightarrow> 'a list \<Rightarrow> nat list" where
  "indices_where p xs = map fst (filter (\<lambda>(i, v). p v) (enumerate 0 xs))"

definition missing_column_issue :: "js_builtins \<Rightarrow> dataframe \<Rightarrow> string \<Rightarrow> Issue list" where
  "missing_column_issue js df col =
     (let s = seriesValues df col;
          missing = indices_where (isMissing js) s;
          missingCount = length missing;
          missingRowIdx = take 5 missing;
          missingPct = (if length s = 0 then 0 else real missingCount / real (length s))
      in if missingPct \<ge> col_missing_threshold CONFIG
         then [issue ''column'' (Some col) missingRowIdx ''missing_values''
                 (if missingPct > 0.5 then ''high'' else ''medium'') missingPct
                 (MissingPct missingPct) (Some ''impute_or_drop'')]
         else [])"

text \<open>With an empty row \<open>missingFraction\<close> is \<open>0/0 = NaN\<close>, and the comparison is false.\<close>

definition missing_row_issue :: "js_builtins \<Rightarrow> nat \<times> cell list \<Rightarrow> Issue list" where
  "missing_row_issue js ir =
     (let i = fst ir; rowValues = snd ir;
          missingCells = length (filter (isMissing js) rowValues)
      in if length rowValues = 0 then []
         else
           (let missingFraction = real missingCells / real (length rowValues)
            in if missingFraction \<ge> row_missing_threshold CONFIG
               then [issue ''row'' None [i] ''row_sparsity'' ''high'' missingFraction
                       (MissingFraction missingFraction) (Some ''drop_or_review'')]
               else []))"

definition detectMissing :: "js_builtins \<Rightarrow> dataframe \<Rightarrow> Issue list \<Rightarrow> Issue list" where
  "detectMissing js df issues =
     issues @ concat (map (missing_column_issue js df) (columns df))
            @ concat (map (missing_row_issue js) (enumerate 0 (df_values df)))"

subsection \<open>Duplicates and primary-key candidates\<close>

fun find_duplicates :: "string list \<Rightarrow> nat \<Rightarrow> string set \<Rightarrow> nat list" where
  "find_duplicates [] i seen = []"
| "find_duplicates (k # ks) i seen =
     (if k \<in> seen then i # find_duplicates ks (Suc i) seen
      else find_duplicates ks (Suc i) (insert k seen))"

definition pk_issue :: "js_builtins \<Rightarrow> dataframe \<Rightarrow> string \<Rightarrow> Issue list" where
  "pk_issue js df col =
     (let nRows = shape0 df;
          vals = filter (non_null js) (seriesValues df col);
          uniqueCount = length (new_Set (map (String_of js) vals));
          frac = (if nRows = 0 then 0 else real uniqueCount / real nRows)
      in if frac \<ge> pk_uniqueness_threshold CONFIG
         then [issue ''column'' (Some col) [] ''pk_candidate'' ''low'' frac (UniqueFraction frac) None]
         else [])"

definition detectDuplicatesAndPK :: "js_builtins \<Rightarrow> dataframe \<Rightarrow> Issue list \<Rightarrow> Issue list" where
  "detectDuplicatesAndPK js df issues =
     (let duplicates = find_duplicates (map (json_stringify js) (df_values df)) 0 {}
      in issues
         @ (if length duplicates \<noteq> 0
            then [issue ''dataset'' None (take 10 duplicates) ''exact_duplicates'' ''high'' 0.9
                    (DuplicateCount (length duplicates)) (Some ''drop_or_merge'')]
            else [])
         @ concat (map (pk_issue js df) (columns df)))"

subsection \<open>Outliers by IQR\<close>

text \<open>\<open>lower\<close> and \<open>upper\<close> of \<open>detectOutliersIQR\<close>, from the sorted values.\<close>

definition iqr_bounds :: "real \<Rightarrow> real list \<Rightarrow> real \<times> real" where
  "iqr_bounds k arr =
     (let Q1 = quartile1 arr;
          Q3 = quartile3 arr;
          iqr = Q3 - Q1;
          lower = Q1 - k * iqr;
          upper = Q3 + k * iqr
      in (lower, upper))"

definition detectOutliersIQR :: "js_builtins \<Rightarrow> dataframe \<Rightarrow> string \<Rightarrow> Issue list \<Rightarrow> Issue list" where
  "detectOutliersIQR js df col issues =
     (let arr = numbers_of (map (Number js) (seriesValues df col))
      in if length arr < 5 then issues
         else
           (let (lower, upper) = iqr_bounds (outlier_iqr_k CONFIG) (sort arr);
                original = seriesValues df col;
                outliers = indices_where (\<lambda>v. out_of_range lower upper (Number js v)) original
            in if length outliers \<noteq> 0
               then issues @ [issue ''column'' (Some col) (take 10 outliers) ''outlier_iqr'' ''medium''
                                (real (length outliers) / real (shape0 df))
                                (OutlierEvidence lower upper (length outliers)) (Some ''review_or_cap'')]
               else issues))"

definition runOutliers :: "js_builtins \<Rightarrow> dataframe \<Rightarrow> Issue list \<Rightarrow> Issue list" where
  "runOutliers js df issues =
     foldl (\<lambda>acc col. if inferColumnType js (seriesValues df col) = ''numeric''
                       then detectOutliersIQR js df col acc else acc)
           issues (columns df)"

subsection \<open>Date parsing, categorical clusters, long text\<close>

definition date_issue :: "js_builtins \<Rightarrow> dataframe \<Rightarrow> string \<Rightarrow> Issue list" where
  "date_issue js df col =
     (if inferColumnType js (seriesValues df col) \<noteq> ''datetime'' then []
      else
        (let vals = take 200 (seriesValues df col);
             failures = length (filter (\<lambda>v. date_parse js (String_of js v) = NaN) vals);
             total = length vals;
             frac = (if total = 0 then 0 else real failures / real total)
         in if frac > 0.1
            then [issue ''column'' (Some col) [] ''date_parse_failures''
                    (if frac > 0.5 then ''high'' else ''medium'') frac
                    (FailedFraction frac) (Some ''parse_with_formats'')]
            else []))"

definition detectDateParsing :: "js_builtins \<Rightarrow> dataframe \<Rightarrow> Issue list \<Rightarrow> Issue list" where
  "detectDateParsing js df issues = issues @ concat (map (date_issue js df) (columns df))"

text \<open>
  The loop over \<open>uniques\<close> of \<open>detectCategoricalInconsistency\<close>, with its two
  accumulators \<open>clusters\<close> and \<open>used\<close>.
\<close>

fun cluster_loop ::
    "js_builtins \<Rightarrow> string list \<Rightarrow> string list \<Rightarrow> string list list \<Rightarrow> string set \<Rightarrow> string list list \<times> string set" where
  "cluster_loop js uniques [] clusters used = (clusters, used)"
| "cluster_loop js uniques (u # us) clusters used =
     (if u \<in> used then cluster_loop js uniques us clusters used
      else
        (let matches = filter (\<lambda>m. snd m < 1 - categorical_fuzzy_ratio CONFIG) (fuse_search js uniques u);
             group = map fst matches
         in cluster_loop js uniques us
              (if length group > 1 then clusters @ [group] else clusters)
              (used \<union> set group)))"

definition column_clusters :: "js_builtins \<Rightarrow> cell list \<Rightarrow> string list list" where
  "column_clusters js vals =
     (let uniques = new_Set (map (String_of js) vals)
      in fst (cluster_loop js uniques uniques [] {}))"

definition categorical_issue :: "js_builtins \<Rightarrow> dataframe \<Rightarrow> string \<Rightarrow> Issue list" where
  "categorical_issue js df col =
     (if inferColumnType js (seriesValues df col) \<noteq> ''string'' then []
      else
        (let vals = seriesValues df col;
             uniques = new_Set (map (String_of js) vals)
         in if length uniques > 500 then []
            else
              (let clusters = column_clusters js vals
               in if length clusters \<noteq> 0
                  then [issue ''column'' (Some col) [] ''categorical_inconsistency'' ''medium'' 0.6
                          (Clusters (take 10 clusters)) (Some ''map_or_standardize'')]
                  else [])))"

definition detectCategoricalInconsistency :: "js_builtins \<Rightarrow> dataframe \<Rightarrow> Issue list \<Rightarrow> Issue list" where
  "detectCategoricalInconsistency js df issues =
     issues @ concat (map (categorical_issue js df) (columns df))"

definition text_issue :: "js_builtins \<Rightarrow> dataframe \<Rightarrow> string \<Rightarrow> Issue list" where
  "text_issue js df col =
     (if inferColumnType js (seriesValues df col) \<noteq> ''string'' then []
      else
        (let vals = seriesValues df col;
             longRows = indices_where (\<lambda>v. length (String_of js v) > 1000) vals
         in if length longRows \<noteq> 0
            then [issue ''column'' (Some col) (take 10 longRows) ''suspicious_text_long'' ''low'' 0.6
                    (Examples (map (\<lambda>i. nth_cell vals i) (take 3 longRows))) (Some ''truncate_or_clean'')]
            else []))"

definition detectSuspiciousText :: "js_builtins \<Rightarrow> dataframe \<Rightarrow> Issue list \<Rightarrow> Issue list" where
  "detectSuspiciousText js df issues = issues @ concat (map (text_issue js df) (columns df))"

subsection \<open>runAll\<close>

text \<open>A new Analyzer starts with \<open>this.issues = []\<close>; \<open>runAll\<close> returns the schema and the issues.\<close>

definition runAll :: "js_builtins \<Rightarrow> dataframe \<Rightarrow> (string \<times> column_profile) list \<times> Issue list" where
  "runAll js df =
     (let schema = inferSchema js df;
          issues1 = detectMissing js df [];
          issues2 = detectDuplicatesAndPK js df issues1;
          issues3 = runOutliers js df issues2;
          issues4 = detectDateParsing js df issues3;
          issues5 = detectCategoricalInconsistency js df issues4;
          issues6 = detectSuspiciousText js df issues5
      in (schema, issues6))"

section \<open>The earlier Analyzer (Analyzer/Analyzer.js)\<close>

text \<open>\<open>series.dropNa()\<close> of danfo: the values that are not null, undefined or NaN.\<close>

definition dropNa :: "cell list \<Rightarrow> cell list" where
  "dropNa s = filter (\<lambda>v. v \<noteq> Null \<and> v \<noteq> Undefined \<and> v \<noteq> Num NaN) s"

text \<open>
  \<open>detectOutliersIQR\<close> as Analyzer/Analyzer.js has it. After the length test and the
  sort, the first statement is \<open>const Q1 = nums(Math.floor(nums.length * 0.25))\<close>, which
  calls the array \<open>nums\<close> as a function and throws a TypeError; the statements after it,
  among them \<open>upper = Q3 - CONFIG.outlier_iqr_k * iqr\<close>, are never reached.
\<close>

definition detectOutliersIQR_draft :: "js_builtins \<Rightarrow> dataframe \<Rightarrow> string \<Rightarrow> Issue list \<Rightarrow> js_error + Issue list" where
  "detectOutliersIQR_draft js df col issues =
     (let s = dropNa (seriesValues df col);
          nums = numbers_of (map (Number js) s)
      in if length nums < 5 then Inr issues else Inl TypeError)"

text \<open>
  The bounds that the statements after the throw would compute (lines 238 to 241 of
  Analyzer/Analyzer.js, with the quartiles read by index): the upper bound subtracts
  \<open>k * iqr\<close> from \<open>Q3\<close>.
\<close>

definition unreached_bounds_draft :: "real \<Rightarrow> real list \<Rightarrow> real \<times> real" where
  "unreached_bounds_draft k nums =
     (let Q1 = quartile1 nums;
          Q3 = quartile3 nums;
          iqr = Q3 - Q1;
          lower = Q1 - k * iqr;
          upper = Q3 - k * iqr
      in (lower, upper))"

text \<open>
  \<open>detectMissing\<close> as Analyzer/Analyzer.js has it. Its \<open>isMissing\<close> tests \<open>v === ""\<close>
  where the later one trims first. The callback of the loop over the columns opens
  with \<open>s = this.df[col]\<close>; \<open>s\<close> is declared nowhere and a class body is strict-mode
  code, so with a column to visit the method throws a ReferenceError. The loop over the
  rows has no test for an empty row either: there \<open>0/0\<close> is NaN and no issue is pushed.
\<close>

definition isMissing_draft :: "cell \<Rightarrow> bool" where
  "isMissing_draft v =
     (v = Null \<or> v = Undefined \<or> v = Str [] \<or>
      (typeof v = ''number'' \<and> v = Num NaN) \<or>
      (case v of
         Str s \<Rightarrow> toLowerCase (trim s) \<in> set [''na'', ''n/a'', ''-'', ''null'']
       | _ \<Rightarrow> False))"

definition missing_row_issue_draft :: "nat \<times> cell list \<Rightarrow> Issue list" where
  "missing_row_issue_draft ir =
     (let i = fst ir; vals = snd ir;
          missingCells = length (filter isMissing_draft vals)
      in if length vals = 0 then []
         else
           (let missingFraction = real missingCells / real (length vals)
            in if missingFraction \<ge> row_missing_threshold CONFIG
               then [issue ''row'' None [i] ''row_sparsity'' ''high'' missingFraction
                       (MissingFraction missingFraction) (Some ''drop_or_review'')]
               else []))"

definition detectMissing_draft :: "dataframe \<Rightarrow> Issue list \<Rightarrow> js_error + Issue list" where
  "detectMissing_draft df issues =
     (if columns df \<noteq> [] then Inl ReferenceError
      else Inr (issues @ concat (map missing_row_issue_draft (enumerate 0 (df_values df)))))"

text \<open>
  \<open>detectDuplicatesAndPK\<close> as Analyzer/Analyzer.js has it: the distinct values are
  counted among the cells that \<open>dropNa\<close> leaves, as they are, and the row count is not
  tested for zero (then \<open>0/0\<close> is NaN and no issue is pushed).
\<close>

definition pk_issue_draft :: "dataframe \<Rightarrow> string \<Rightarrow> Issue list" where
  "pk_issue_draft df col =
     (let uniqueCount = length (new_Set (dropNa (seriesValues df col)))
      in if shape0 df = 0 then []
         else
           (let frac = real uniqueCount / real (shape0 df)
            in if frac \<ge> pk_uniqueness_threshold CONFIG
               then [issue ''column'' (Some col) [] ''pk_candidate'' ''low'' frac (UniqueFraction frac) None]
               else []))"

definition detectDuplicatesAndPK_draft :: "js_builtins \<Rightarrow> dataframe \<Rightarrow> Issue list \<Rightarrow> Issue list" where
  "detectDuplicatesAndPK_draft js df issues =
     (let duplicates = find_duplicates (map (json_stringify js) (df_values df)) 0 {}
      in issues
         @ (if length duplicates \<noteq> 0
            then [issue ''dataset'' None (take 10 duplicates) ''exact_duplicates'' ''high'' 0.9
                    (DuplicateCount (length duplicates)) (Some ''drop_or_merge'')]
            else [])
         @ concat (map (pk_issue_draft df) (columns df)))"

section \<open>The transformations on a store\<close>

text \<open>
  The same four \<open>apply\<close> methods with the identity of arrays and records made explicit.
  The store is a list of objects, an address is an index into it, and nothing is ever
  freed: a record object holds its properties, an array holds the addresses of its
  elements. \<open>Object.assign({}, r)\<close> and every array that \<open>map\<close> or \<open>filter\<close> builds take
  the next free address; an assignment \<open>copy[column] = v\<close> updates the store at the
  address of \<open>copy\<close>. The store is returned also when the call throws.
\<close>

datatype hval = Obj jsobject | Arr "nat list"

type_synonym heap = "hval list"

definition object_at :: "heap \<Rightarrow> nat \<Rightarrow> jsobject" where
  "object_at h p = (if p < length h then (case h ! p of Obj r \<Rightarrow> r | Arr ps \<Rightarrow> Map.empty) else Map.empty)"

definition array_at :: "heap \<Rightarrow> nat \<Rightarrow> nat list" where
  "array_at h a = (if a < length h then (case h ! a of Arr ps \<Rightarrow> ps | Obj r \<Rightarrow> []) else [])"

definition contents :: "heap \<Rightarrow> nat \<Rightarrow> jsobject list" where
  "contents h a = map (object_at h) (array_at h a)"

text \<open>
  \<open>records.map((r) => { const copy = Object.assign({}, r); ...; return copy })\<close>: the
  callback \<open>cb\<close> gives, from the properties the fresh copy starts with, the properties
  it ends with and what is added to \<open>changed\<close>.
\<close>

fun map_copy_h ::
    "(jsobject \<Rightarrow> js_error + (jsobject \<times> nat)) \<Rightarrow> heap \<Rightarrow> nat list \<Rightarrow> nat \<Rightarrow> heap \<times> (js_error + (nat list \<times> nat))" where
  "map_copy_h cb h [] changed = (h, Inr ([], changed))"
| "map_copy_h cb h (r # rs) changed =
     (let copy = length h;
          h1 = h @ [Obj (object_at h r)]
      in case cb (object_at h1 copy) of
           Inl e \<Rightarrow> (h1, Inl e)
         | Inr (copy', d) \<Rightarrow>
             (case map_copy_h cb (h1[copy := Obj copy']) rs (changed + d) of
                (h2, Inl e) \<Rightarrow> (h2, Inl e)
              | (h2, Inr (copies, changed')) \<Rightarrow> (h2, Inr (copy # copies, changed'))))"

definition records_map_h ::
    "(jsobject \<Rightarrow> js_error + (jsobject \<times> nat)) \<Rightarrow> (nat \<Rightarrow> evidence) \<Rightarrow> heap \<Rightarrow> nat \<Rightarrow> heap \<times> (js_error + (nat \<times> evidence))" where
  "records_map_h cb mk_evidence h records =
     (case map_copy_h cb h (array_at h records) 0 of
        (h', Inl e) \<Rightarrow> (h', Inl e)
      | (h', Inr (copies, changed)) \<Rightarrow> (h' @ [Arr copies], Inr (length h', mk_evidence changed)))"

definition CoerceNumeric_apply_h ::
    "js_builtins \<Rightarrow> string \<Rightarrow> heap \<Rightarrow> nat \<Rightarrow> heap \<times> (js_error + (nat \<times> evidence))" where
  "CoerceNumeric_apply_h js column h records =
     (let beforeSample = map (\<lambda>r. get_cell r column) (take 5 (contents h records))
      in records_map_h (\<lambda>r. Inr (coerce_numeric_cb js column r)) (CoerceEvidence beforeSample) h records)"

definition CoerceDatetime_apply_h ::
    "js_builtins \<Rightarrow> string \<Rightarrow> heap \<Rightarrow> nat \<Rightarrow> heap \<times> (js_error + (nat \<times> evidence))" where
  "CoerceDatetime_apply_h js column h records =
     (let beforeSample = map (\<lambda>r. get_cell r column) (take 5 (contents h records))
      in records_map_h (coerce_datetime_cb js column) (CoerceEvidence beforeSample) h records)"

definition FillMissing_apply_h ::
    "js_builtins \<Rightarrow> fill_params \<Rightarrow> heap \<Rightarrow> nat \<Rightarrow> heap \<times> (js_error + (nat \<times> evidence))" where
  "FillMissing_apply_h js p h records =
     (case compute_fill js p (contents h records) of
        Inl e \<Rightarrow> (h, Inl e)
      | Inr fillValue \<Rightarrow>
          (let beforeRecords = map (\<lambda>r. get_cell r (fill_column p)) (take 5 (contents h records))
           in records_map_h (\<lambda>r. Inr (fill_missing_cb (fill_column p) fillValue r))
                (\<lambda>changed. FillEvidence beforeRecords changed fillValue) h records))"

definition ClipOutliersIQR_apply_h ::
    "js_builtins \<Rightarrow> clip_params \<Rightarrow> heap \<Rightarrow> nat \<Rightarrow> heap \<times> (js_error + (nat \<times> evidence))" where
  "ClipOutliersIQR_apply_h js p h records =
     (let column = clip_column p;
          k = (case clip_k p of None \<Rightarrow> 1.5 | Some k' \<Rightarrow> k');
          method = (if clip_method p = Undefined then Str ''clip'' else clip_method p);
          flag_name = (case flag_column_name p of None \<Rightarrow> ''_outliers'' | Some f \<Rightarrow> f);
          nums = clip_nums js column (contents h records)
      in if length nums < 5 then (h, Inr (records, Reason ''not_enough_numeric''))
         else
           (let (lower, upper) = clip_bounds k (sort nums) in
            if method = Str ''clip'' then
              records_map_h (\<lambda>r. Inr (clip_cb js column lower upper r))
                (ClipEvidence method lower upper) h records
            else if method = Str ''flag'' then
              records_map_h (\<lambda>r. Inr (flag_cb js column flag_name lower upper r))
                (FlagEvidence method lower upper) h records
            else if method = Str ''remove'' then
              (let kept = filter (\<lambda>r. remove_keeps js column lower upper (object_at h r)) (array_at h records);
                   removed = length (array_at h records) - length kept
               in (h @ [Arr kept], Inr (length h, RemoveEvidence method lower upper removed)))
            else (h, Inr (records, Reason ''unknown_method''))))"

text \<open>\<open>apply\<close> by the class of the object, on the store.\<close>

fun apply_h :: "js_builtins \<Rightarrow> variant \<Rightarrow> heap \<Rightarrow> nat \<Rightarrow> heap \<times> (js_error + (nat \<times> evidence))" where
  "apply_h js (VCoerceNumeric column) h records = CoerceNumeric_apply_h js column h records"
| "apply_h js (VCoerceDatetime column) h records = CoerceDatetime_apply_h js column h records"
| "apply_h js (VFillMissing p) h records = FillMissing_apply_h js p h records"
| "apply_h js (VClipOutliersIQR p) h records = ClipOutliersIQR_apply_h js p h records"

section \<open>Concrete inputs\<close>

text \<open>
  A host whose \<open>Number\<close> and \<open>Date.parse\<close> reject every string and whose fuse index
  finds nothing; the examples that use it hold cells that need no parsing.
\<close>

definition js0 :: js_builtins where
  "js0 = \<lparr>str_to_number = (\<lambda>s. NaN), number_to_str = (\<lambda>x. ''0''), date_parse = (\<lambda>s. NaN),
          json_stringify = (\<lambda>r. []), fuse_search = (\<lambda>xs pat. [])\<rparr>"

text \<open>Records with the one column \<open>x\<close>, holding the given numbers.\<close>

definition column_x :: "real list \<Rightarrow> jsobject list" where
  "column_x xs = map (\<lambda>x. [''x'' \<mapsto> Num (Fin x)]) xs"

text \<open>
  A host for the city column below: no string is a number or a date, a row is printed
  cell by cell, and the fuse index answers as fuse.js scores these three strings (an
  equal string 0, a containing string by the offset of the hit: \<open>New\<close> is found in
  \<open>New York\<close> at offset 0, \<open>York\<close> at offset 4).
\<close>

definition js1 :: js_builtins where
  "js1 = \<lparr>str_to_number = (\<lambda>s. NaN), number_to_str = (\<lambda>x. ''0''), date_parse = (\<lambda>s. NaN),
          json_stringify = (\<lambda>row. concat (map (\<lambda>v. case v of Str s \<Rightarrow> s @ '','' | _ \<Rightarrow> ''null,'') row)),
          fuse_search = (\<lambda>xs pat.
             if pat = ''New'' then [(''New'', 0), (''New York'', 0.008)]
             else if pat = ''York'' then [(''York'', 0), (''New York'', 0.103)]
             else if pat = ''New York'' then [(''New York'', 0)]
             else [])\<rparr>"

definition df_city :: dataframe where
  "df_city = \<lparr>columns = [''city''], df_values = [[Str ''New''], [Str ''New York''], [Str ''York'']]\<rparr>"

text \<open>A data frame with the one column \<open>x\<close>, holding the given numbers.\<close>

definition df_x :: "real list \<Rightarrow> dataframe" where
  "df_x xs = \<lparr>columns = [''x''], df_values = map (\<lambda>x. [Num (Fin x)]) xs\<rparr>"

text \<open>Two stores: one record and the array of it; five records and the array of them.\<close>

definition heap1 :: heap where
  "heap1 = [Obj [''x'' \<mapsto> Str ''abc''], Arr [0]]"

definition heap5 :: heap where
  "heap5 = [Obj [''x'' \<mapsto> Num (Fin 1)], Obj [''x'' \<mapsto> Num (Fin 2)], Obj [''x'' \<mapsto> Num (Fin 3)],
            Obj [''x'' \<mapsto> Num (Fin 4)], Obj [''x'' \<mapsto> Num (Fin 5)], Arr [0, 1, 2, 3, 4]]"

section \<open>Predicates of the specification\<close>

text \<open>Every issue of a list has its score in the closed interval from 0 to 1.\<close>

definition scores_ok :: "Issue list \<Rightarrow> bool" where
  "scores_ok issues = list_all (\<lambda>i. 0 \<le> score i \<and> score i \<le> 1) issues"

text \<open>Every address of the store \<open>h\<close> holds in \<open>h'\<close> what it held in \<open>h\<close>.\<close>

definition unchanged :: "heap \<Rightarrow> heap \<Rightarrow> bool" where
  "unchanged h h' = (take (length h) h' = h)"

text \<open>
  The array at \<open>a'\<close> is new in \<open>h'\<close> and holds \<open>n\<close> different addresses, all of them new.
\<close>

definition fresh_copies :: "heap \<Rightarrow> heap \<Rightarrow> nat \<Rightarrow> nat \<Rightarrow> bool" where
  "fresh_copies h h' a' n =
     (length h \<le> a' \<and> a' < length h' \<and> length (array_at h' a') = n \<and> distinct (array_at h' a') \<and>
      list_all (\<lambda>p. length h \<le> p \<and> p < length h') (array_at h' a'))"

section \<open>Properties of the transformations\<close>

subsection \<open>Helpers\<close>

lemma map_count_Inr:
  "map_count (\<lambda>r. Inr (f r)) rs c = Inr (map (\<lambda>r. fst (f r)) rs, c + sum_list (map (\<lambda>r. snd (f r)) rs))"
  by (induction rs arbitrary: c) (simp_all add: case_prod_beta)

lemma map_count_length:
  "map_count cb rs c = Inr (rs', c') \<Longrightarrow> length rs' = length rs"
  by (induction rs arbitrary: c rs' c') (auto split: sum.splits prod.splits)

lemma floor_quarter: "nat \<lfloor>real n * 0.25\<rfloor> = n div 4"
proof -
  have "real n * 0.25 = real n / real 4" by simp
  then show ?thesis by (simp only: floor_divide_of_nat_eq nat_int)
qed

lemma floor_three_quarters: "nat \<lfloor>real n * 0.75\<rfloor> = (3 * n) div 4"
proof -
  have "real n * 0.75 = real (3 * n) / real 4" by simp
  then show ?thesis by (simp only: floor_divide_of_nat_eq nat_int)
qed

lemma floor_half: "nat \<lfloor>real n / 2\<rfloor> = n div 2"
proof -
  have "real n / 2 = real n / real 2" by simp
  then show ?thesis by (simp only: floor_divide_of_nat_eq nat_int)
qed

lemma is_blank_iff: "is_blank v \<longleftrightarrow> v \<in> {Null, Undefined, Str []}"
  by (cases v) (auto simp: is_blank_def)

lemma sum_list_indicator: "sum_list (map (\<lambda>r. if P r then 1 else 0) rs) = length (filter P rs)"
  by (induction rs) simp_all

subsection \<open>CoerceNumeric\<close>

lemma CoerceNumeric_apply_eq:
  "CoerceNumeric_apply js column records =
     Inr (map (\<lambda>r. fst (coerce_numeric_cb js column r)) records,
          CoerceEvidence (map (\<lambda>r. get_cell r column) (take 5 records))
            (sum_list (map (\<lambda>r. snd (coerce_numeric_cb js column r)) records)))"
  by (simp add: CoerceNumeric_apply_def map_count_Inr)

lemma coerce_numeric_cb_clean:
  assumes "r column = Some Null \<or> (\<exists>x. r column = Some (Num (Fin x)))"
  shows "coerce_numeric_cb js column r = (r, 0)"
  using assms by (auto simp: coerce_numeric_cb_def get_cell_def isNaN_def Let_def fun_upd_idem)

lemma coerce_numeric_cb_twice:
  "coerce_numeric_cb js column (fst (coerce_numeric_cb js column r)) =
     (fst (coerce_numeric_cb js column r), 0)"
proof (rule coerce_numeric_cb_clean)
  show "fst (coerce_numeric_cb js column r) column = Some Null \<or>
    (\<exists>x. fst (coerce_numeric_cb js column r) column = Some (Num (Fin x)))"
    by (cases "get_cell r column"; cases "Number js (get_cell r column)")
       (auto simp: coerce_numeric_cb_def get_cell_def isNaN_def Let_def)
qed

text \<open>
  C7. CoerceNumeric is idempotent in its evidence: the first application always returns,
  and a second application to the records it produced returns them again with
  \<open>changed_count = 0\<close>.
\<close>

theorem CoerceNumeric_second_call_changes_nothing:
  "\<exists>records1 ev1 records2 ev2.
     CoerceNumeric_apply js column records = Inr (records1, ev1) \<and>
     CoerceNumeric_apply js column records1 = Inr (records2, ev2) \<and>
     changed_count ev2 = 0 \<and> records2 = records1"
  by (simp add: CoerceNumeric_apply_eq coerce_numeric_cb_twice o_def)

subsection \<open>ClipOutliersIQR: the destructive flag\<close>

text \<open>
  C8. A ClipOutliersIQR object has \<open>destructive = true\<close> exactly when \<open>params.method\<close> is
  the string \<open>"remove"\<close>, and \<open>apply\<close> leaves the object, so also the flag, as it was built.
\<close>

theorem ClipOutliersIQR_destructive_iff_remove:
  "destructive (ClipOutliersIQR p) = (clip_method p = Str ''remove'') \<and>
   fst (apply_method js (ClipOutliersIQR p) records) = ClipOutliersIQR p"
  by (cases "clip_method p")
     (auto simp: ClipOutliersIQR_def Transformation_def apply_method_def Let_def)

lemma other_transformations_not_destructive:
  "\<not> destructive (CoerceNumeric column) \<and> \<not> destructive (CoerceDatetime column) \<and>
   \<not> destructive (FillMissing fp)"
  by (simp add: CoerceNumeric_def CoerceDatetime_def FillMissing_def Transformation_def)

lemma ClipOutliersIQR_clip_flag_not_destructive:
  "\<not> destructive (ClipOutliersIQR (p\<lparr>clip_method := Str ''clip''\<rparr>)) \<and>
   \<not> destructive (ClipOutliersIQR (p\<lparr>clip_method := Str ''flag''\<rparr>)) \<and>
   destructive (ClipOutliersIQR (p\<lparr>clip_method := Str ''remove''\<rparr>))"
  by (simp add: ClipOutliersIQR_def Transformation_def)

subsection \<open>FillMissing\<close>

lemma compute_fill_total:
  assumes "fill_strategy p \<noteq> Str ''mode''"
  shows "\<exists>fillValue. compute_fill js p records = Inr fillValue"
  using assms by (simp add: compute_fill_def Let_def)

lemma FillMissing_apply_eq:
  assumes "compute_fill js p records = Inr fillValue"
  shows "FillMissing_apply js p records =
     Inr (map (\<lambda>r. if get_cell r (fill_column p) \<in> {Null, Undefined, Str []}
                    then r(fill_column p \<mapsto> fillValue) else r) records,
          FillEvidence (map (\<lambda>r. get_cell r (fill_column p)) (take 5 records))
            (length (filter (\<lambda>r. get_cell r (fill_column p) \<in> {Null, Undefined, Str []}) records))
            fillValue)"
proof -
  have cb: "fill_missing_cb (fill_column p) fillValue r =
      (if get_cell r (fill_column p) \<in> {Null, Undefined, Str []}
       then (r(fill_column p \<mapsto> fillValue), 1) else (r, 0))" for r
    by (simp add: fill_missing_cb_def is_blank_iff)
  have fst_cb: "fst (fill_missing_cb (fill_column p) fillValue r) =
      (if get_cell r (fill_column p) \<in> {Null, Undefined, Str []}
       then r(fill_column p \<mapsto> fillValue) else r)" for r
    by (simp add: cb)
  have snd_cb: "snd (fill_missing_cb (fill_column p) fillValue r) =
      (if get_cell r (fill_column p) \<in> {Null, Undefined, Str []} then 1 else 0)" for r
    by (simp add: cb)
  show ?thesis
    by (simp only: FillMissing_apply_def assms sum.case Let_def map_count_Inr fst_cb snd_cb
          sum_list_indicator prod.case add_0)
qed

text \<open>
  C3, as the claim states it, fails: the cell \<open>"NA"\<close> is missing for the detector's
  \<open>isMissing\<close>, and FillMissing with a constant leaves it and counts no change.
\<close>

theorem FillMissing_leaves_NA_counterexample:
  "isMissing js0 (Str ''NA'') \<and>
   FillMissing_apply js0 \<lparr>fill_column = ''x'', fill_strategy = Str ''constant'', fill_value = Num (Fin 0)\<rparr>
       [[''x'' \<mapsto> Str ''NA'']]
     = Inr ([[''x'' \<mapsto> Str ''NA'']], FillEvidence [Str ''NA''] 0 (Num (Fin 0)))"
  by (simp add: isMissing_def trim_def toLowerCase_def is_space_def
        FillMissing_apply_def compute_fill_def fill_missing_cb_def is_blank_def get_cell_def)

text \<open>
  C3, amended. With any strategy but \<open>"mode"\<close>, \<open>FillMissing.apply\<close> returns; it replaces
  the cell of the column by the fill value in exactly the records where that cell is
  null, undefined or the empty string, leaves every other record as it was, and
  \<open>changed_count\<close> is the number of those records.
\<close>

theorem FillMissing_fills_blank_cells:
  assumes "fill_strategy p \<noteq> Str ''mode''"
  shows "\<exists>fillValue.
     compute_fill js p records = Inr fillValue \<and>
     FillMissing_apply js p records =
       Inr (map (\<lambda>r. if get_cell r (fill_column p) \<in> {Null, Undefined, Str []}
                      then r(fill_column p \<mapsto> fillValue) else r) records,
            FillEvidence (map (\<lambda>r. get_cell r (fill_column p)) (take 5 records))
              (length (filter (\<lambda>r. get_cell r (fill_column p) \<in> {Null, Undefined, Str []}) records))
              fillValue)"
proof -
  from compute_fill_total [OF assms] obtain fillValue
    where fv: "compute_fill js p records = Inr fillValue" by blast
  from FillMissing_apply_eq [OF fv] fv show ?thesis by blast
qed

theorem FillMissing_fills_blank_cells_witness:
  "fill_strategy \<lparr>fill_column = ''x'', fill_strategy = Str ''mean'', fill_value = Undefined\<rparr> \<noteq> Str ''mode'' \<and>
   FillMissing_apply js0 \<lparr>fill_column = ''x'', fill_strategy = Str ''mean'', fill_value = Undefined\<rparr>
       [[''x'' \<mapsto> Num (Fin 1)], [''x'' \<mapsto> Num (Fin 2)], [''x'' \<mapsto> Null], [''x'' \<mapsto> Num (Fin 4)]]
     = Inr ([[''x'' \<mapsto> Num (Fin 1)], [''x'' \<mapsto> Num (Fin 2)], [''x'' \<mapsto> Num (Fin (7 / 3))],
             [''x'' \<mapsto> Num (Fin 4)]],
            FillEvidence [Num (Fin 1), Num (Fin 2), Null, Num (Fin 4)] 1 (Num (Fin (7 / 3))))"
proof -
  let ?p = "\<lparr>fill_column = ''x'', fill_strategy = Str ''mean'', fill_value = Undefined\<rparr>"
  let ?rs = "[[''x'' \<mapsto> Num (Fin 1)], [''x'' \<mapsto> Num (Fin 2)], [''x'' \<mapsto> Null], [''x'' \<mapsto> Num (Fin 4)]]"
  have h: "fill_strategy ?p \<noteq> Str ''mode''" by simp
  have fv: "compute_fill js0 ?p ?rs = Inr (Num (Fin (7 / 3)))"
    by (simp add: compute_fill_def is_blank_def get_cell_def)
  from FillMissing_fills_blank_cells [OF h, of js0 ?rs] fv h show ?thesis
    by (simp add: get_cell_def)
qed

lemma FillMissing_other_strategy:
  assumes "fill_strategy p \<notin> {Undefined, Str ''mean'', Str ''median'', Str ''mode''}"
  shows "\<exists>records' before n. FillMissing_apply js p records =
           Inr (records', FillEvidence before n (fill_value p))"
proof -
  from assms have "compute_fill js p records = Inr (fill_value p)"
    by (simp add: compute_fill_def)
  from FillMissing_apply_eq [OF this] show ?thesis by blast
qed

text \<open>
  C4. With the strategy \<open>"max"\<close>, which is none of mean, median, mode and constant,
  \<open>FillMissing.apply\<close> does not throw, fills the null cell with the absent \<open>value\<close>
  (\<open>undefined\<close>) and returns the usual evidence: no \<open>reason\<close> reports the strategy.
\<close>

theorem FillMissing_unknown_strategy_gives_no_reason:
  "FillMissing_apply js \<lparr>fill_column = ''x'', fill_strategy = Str ''max'', fill_value = Undefined\<rparr>
       [[''x'' \<mapsto> Null]]
     = Inr ([[''x'' \<mapsto> Undefined]], FillEvidence [Null] 1 Undefined) \<and>
   \<not> has_reason (FillEvidence [Null] 1 Undefined)"
  by (simp add: FillMissing_apply_def compute_fill_def fill_missing_cb_def is_blank_def get_cell_def)

subsection \<open>ClipOutliersIQR: the bounds\<close>

lemma quartile1_index: "quartile1 nums = nums ! (length nums div 4)"
  by (simp only: quartile1_def floor_quarter)

lemma quartile3_index: "quartile3 nums = nums ! ((3 * length nums) div 4)"
  by (simp only: quartile3_def floor_three_quarters)

lemma clip_bounds_eq:
  "clip_bounds k nums =
     (quartile1 nums - k * (quartile3 nums - quartile1 nums),
      quartile1 nums + k * (quartile3 nums - quartile1 nums))"
  by (simp add: clip_bounds_def Let_def)

lemma iqr_bounds_eq:
  "iqr_bounds k nums =
     (quartile1 nums - k * (quartile3 nums - quartile1 nums),
      quartile3 nums + k * (quartile3 nums - quartile1 nums))"
  by (simp add: iqr_bounds_def Let_def)

lemma clip_bounds_vs_iqr_bounds:
  "fst (clip_bounds k nums) = fst (iqr_bounds k nums) \<and>
   snd (clip_bounds k nums) = snd (iqr_bounds k nums) - (quartile3 nums - quartile1 nums)"
  by (simp add: clip_bounds_eq iqr_bounds_eq)

text \<open>
  C2. On the column 1, 2, 3, 4, 5, 8 with the default \<open>k\<close> the detector's bounds are
  \<open>-2.5\<close> and \<open>9.5\<close>; \<open>ClipOutliersIQR.apply\<close> reports the upper bound \<open>6.5\<close> (it adds
  \<open>k * iqr\<close> to \<open>q1\<close>, not to \<open>q3\<close>) and clips the value 8, which lies inside the
  detector's bounds.
\<close>

theorem ClipOutliersIQR_upper_bound_differs:
  "ClipOutliersIQR_apply js
       \<lparr>clip_column = ''x'', clip_k = None, clip_method = Str ''clip'', flag_column_name = None\<rparr>
       (column_x [1, 2, 3, 4, 5, 8])
     = Inr (column_x [1, 2, 3, 4, 5, 6.5], ClipEvidence (Str ''clip'') (- 2.5) 6.5 1) \<and>
   iqr_bounds 1.5 (sort (clip_nums js ''x'' (column_x [1, 2, 3, 4, 5, 8]))) = (- 2.5, 9.5)"
  by (simp add: ClipOutliersIQR_apply_def clip_nums_def column_x_def get_cell_def clip_bounds_def
        iqr_bounds_def quartile1_def quartile3_def clip_cb_def Let_def)

subsection \<open>Record counts\<close>

lemma CoerceNumeric_length:
  "\<exists>records' ev. CoerceNumeric_apply js column records = Inr (records', ev) \<and>
                  length records' = length records"
  by (simp add: CoerceNumeric_apply_eq)

lemma FillMissing_length:
  assumes "FillMissing_apply js p records = Inr (records', ev)"
  shows "length records' = length records"
  using assms
  by (auto simp: FillMissing_apply_def Let_def split: sum.splits prod.splits dest: map_count_length)

lemma CoerceDatetime_length:
  assumes "CoerceDatetime_apply js column records = Inr (records', ev)"
  shows "length records' = length records"
  using assms
  by (auto simp: CoerceDatetime_apply_def Let_def split: sum.splits prod.splits dest: map_count_length)

lemma ClipOutliersIQR_length:
  assumes "clip_method p \<noteq> Str ''remove''"
  shows "\<exists>records' ev. ClipOutliersIQR_apply js p records = Inr (records', ev) \<and>
                        length records' = length records"
  using assms
  by (simp add: ClipOutliersIQR_apply_def Let_def map_count_Inr split: prod.splits)

text \<open>
  C10. \<open>CoerceDatetime.apply\<close> on the one record \<open>{d: null}\<close> throws a TypeError, whatever
  the host's date parser accepts: no record list comes back, so none of the input's length.
\<close>

theorem CoerceDatetime_null_cell_throws:
  "CoerceDatetime_apply js ''d'' [[''d'' \<mapsto> Null]] = Inl TypeError"
  by (simp add: CoerceDatetime_apply_def coerce_datetime_cb_def get_cell_def isNaN_def)

lemma coerce_datetime_cb_throws:
  assumes "is_blank (get_cell r column) \<or> date_parse js (String_of js (get_cell r column)) \<noteq> NaN"
  shows "coerce_datetime_cb js column r = Inl TypeError"
  using assms by (auto simp: coerce_datetime_cb_def is_blank_def isNaN_def Let_def)

lemma FillMissing_mode_throws:
  "FillMissing_apply js (p\<lparr>fill_strategy := Str ''mode''\<rparr>) records = Inl ReferenceError"
  by (simp add: FillMissing_apply_def compute_fill_def)

section \<open>Properties of the Analyzer\<close>

subsection \<open>Scores\<close>

lemma scores_ok_append: "scores_ok (xs @ ys) \<longleftrightarrow> scores_ok xs \<and> scores_ok ys"
  by (simp add: scores_ok_def)

lemma scores_ok_concat: "(\<And>x. x \<in> set xs \<Longrightarrow> scores_ok (f x)) \<Longrightarrow> scores_ok (concat (map f xs))"
  by (induction xs) (simp_all add: scores_ok_def)

lemma scores_ok_single: "scores_ok [issue sc col rws ty sev s ev fix] \<longleftrightarrow> 0 \<le> s \<and> s \<le> 1"
  by (simp add: scores_ok_def issue_def)

lemma scores_ok_Nil: "scores_ok []"
  by (simp add: scores_ok_def)

lemma ratio_in_unit: "a \<le> b \<Longrightarrow> 0 \<le> real a / real b \<and> real a / real b \<le> 1"
  by (cases "b = 0") (simp_all add: divide_le_eq_1)

lemma length_indices_where: "length (indices_where p xs) \<le> length xs"
proof -
  have "length (indices_where p xs) \<le> length (enumerate 0 xs)"
    unfolding indices_where_def length_map by (rule length_filter_le)
  then show ?thesis by simp
qed

lemma length_Set_add: "length (Set_add seen xs) \<le> length seen + length xs"
proof (induction xs arbitrary: seen)
  case Nil
  then show ?case by simp
next
  case (Cons x xs)
  show ?case
  proof (cases "x \<in> set seen")
    case True
    with Cons [of seen] show ?thesis by simp
  next
    case False
    with Cons [of "seen @ [x]"] show ?thesis by simp
  qed
qed

lemma length_new_Set: "length (new_Set xs) \<le> length xs"
  using length_Set_add [of "[]" xs] by (simp add: new_Set_def)

lemma length_seriesValues: "length (seriesValues df col) \<le> shape0 df"
  by (simp add: seriesValues_def shape0_def split: option.splits)

lemma length_numbers_of: "length (numbers_of ns) \<le> length ns"
  by (induction ns rule: numbers_of.induct) auto

lemma missing_column_issue_scores: "scores_ok (missing_column_issue js df col)"
  using ratio_in_unit [OF length_indices_where, of "isMissing js" "seriesValues df col"]
  by (simp add: missing_column_issue_def Let_def scores_ok_single scores_ok_Nil)

lemma missing_row_issue_scores: "scores_ok (missing_row_issue js ir)"
  using ratio_in_unit [OF length_filter_le, of "isMissing js" "snd ir"]
  by (simp add: missing_row_issue_def Let_def scores_ok_single scores_ok_Nil)

lemma detectMissing_scores: "scores_ok issues \<Longrightarrow> scores_ok (detectMissing js df issues)"
  by (simp add: detectMissing_def scores_ok_append scores_ok_concat
        missing_column_issue_scores missing_row_issue_scores)

lemma pk_issue_scores: "scores_ok (pk_issue js df col)"
proof -
  let ?vals = "filter (non_null js) (seriesValues df col)"
  have "length (new_Set (map (String_of js) ?vals)) \<le> length ?vals"
    using length_new_Set [of "map (String_of js) ?vals"] by simp
  also have "\<dots> \<le> length (seriesValues df col)" by (rule length_filter_le)
  also have "\<dots> \<le> shape0 df" by (rule length_seriesValues)
  finally have "length (new_Set (map (String_of js) ?vals)) \<le> shape0 df" .
  from ratio_in_unit [OF this] show ?thesis
    by (simp add: pk_issue_def Let_def scores_ok_single scores_ok_Nil)
qed

lemma detectDuplicatesAndPK_scores:
  "scores_ok issues \<Longrightarrow> scores_ok (detectDuplicatesAndPK js df issues)"
  by (simp add: detectDuplicatesAndPK_def Let_def scores_ok_append scores_ok_concat
        pk_issue_scores scores_ok_single scores_ok_Nil)

lemma detectOutliersIQR_scores:
  assumes "scores_ok issues"
  shows "scores_ok (detectOutliersIQR js df col issues)"
proof -
  have "length (indices_where p (seriesValues df col)) \<le> shape0 df" for p
    using length_indices_where [of p "seriesValues df col"] length_seriesValues [of df col]
    by (rule order_trans)
  from ratio_in_unit [OF this] assms show ?thesis
    by (simp add: detectOutliersIQR_def Let_def scores_ok_append scores_ok_single split: prod.splits)
qed

lemma runOutliers_scores:
  "scores_ok issues \<Longrightarrow> scores_ok (runOutliers js df issues)"
proof -
  have "scores_ok issues \<Longrightarrow>
        scores_ok (foldl (\<lambda>acc col. if inferColumnType js (seriesValues df col) = ''numeric''
                       then detectOutliersIQR js df col acc else acc) issues cols)" for cols
    by (induction cols arbitrary: issues) (simp_all add: detectOutliersIQR_scores)
  then show "scores_ok issues \<Longrightarrow> scores_ok (runOutliers js df issues)"
    by (simp add: runOutliers_def)
qed

lemma date_issue_scores: "scores_ok (date_issue js df col)"
  using ratio_in_unit [OF length_filter_le,
      of "\<lambda>v. date_parse js (String_of js v) = NaN" "take 200 (seriesValues df col)"]
  by (simp add: date_issue_def Let_def scores_ok_single scores_ok_Nil)

lemma detectDateParsing_scores:
  "scores_ok issues \<Longrightarrow> scores_ok (detectDateParsing js df issues)"
  by (simp add: detectDateParsing_def scores_ok_append scores_ok_concat date_issue_scores)

lemma categorical_issue_scores: "scores_ok (categorical_issue js df col)"
  by (simp add: categorical_issue_def Let_def scores_ok_single scores_ok_Nil)

lemma detectCategoricalInconsistency_scores:
  "scores_ok issues \<Longrightarrow> scores_ok (detectCategoricalInconsistency js df issues)"
  by (simp add: detectCategoricalInconsistency_def scores_ok_append scores_ok_concat categorical_issue_scores)

lemma text_issue_scores: "scores_ok (text_issue js df col)"
  by (simp add: text_issue_def Let_def scores_ok_single scores_ok_Nil)

lemma detectSuspiciousText_scores:
  "scores_ok issues \<Longrightarrow> scores_ok (detectSuspiciousText js df issues)"
  by (simp add: detectSuspiciousText_def scores_ok_append scores_ok_concat text_issue_scores)

lemma runAll_scores_ok: "scores_ok (snd (runAll js df))"
  by (simp add: runAll_def Let_def detectSuspiciousText_scores detectCategoricalInconsistency_scores
        detectDateParsing_scores runOutliers_scores detectDuplicatesAndPK_scores detectMissing_scores
        scores_ok_Nil)

text \<open>
  The one score whose divisor is not tested for zero, \<open>outliers.length / this.df.shape[0]\<close>,
  is computed only when the column has five numeric values, so when the frame has rows.
\<close>

lemma detectOutliersIQR_divisor_positive:
  assumes "5 \<le> length (numbers_of (map (Number js) (seriesValues df col)))"
  shows "0 < shape0 df"
proof -
  have "length (numbers_of (map (Number js) (seriesValues df col))) \<le> length (seriesValues df col)"
    using length_numbers_of [of "map (Number js) (seriesValues df col)"] by simp
  also have "\<dots> \<le> shape0 df" by (rule length_seriesValues)
  finally show ?thesis using assms by simp
qed

text \<open>The two detectors of Analyzer/Analyzer.js that emit issues keep the scores in range too.\<close>

lemma missing_row_issue_draft_scores: "scores_ok (missing_row_issue_draft ir)"
  using ratio_in_unit [OF length_filter_le, of isMissing_draft "snd ir"]
  by (simp add: missing_row_issue_draft_def Let_def scores_ok_single scores_ok_Nil)

lemma detectMissing_draft_scores:
  assumes "scores_ok issues" and "detectMissing_draft df issues = Inr issues'"
  shows "scores_ok issues'"
  using assms
  by (auto simp: detectMissing_draft_def scores_ok_append scores_ok_concat
        missing_row_issue_draft_scores split: if_splits)

lemma pk_issue_draft_scores: "scores_ok (pk_issue_draft df col)"
proof -
  have "length (new_Set (dropNa (seriesValues df col))) \<le> length (dropNa (seriesValues df col))"
    by (rule length_new_Set)
  also have "\<dots> \<le> length (seriesValues df col)"
    unfolding dropNa_def by (rule length_filter_le)
  also have "\<dots> \<le> shape0 df" by (rule length_seriesValues)
  finally have "length (new_Set (dropNa (seriesValues df col))) \<le> shape0 df" .
  from ratio_in_unit [OF this] show ?thesis
    by (simp add: pk_issue_draft_def Let_def scores_ok_single scores_ok_Nil)
qed

lemma detectDuplicatesAndPK_draft_scores:
  "scores_ok issues \<Longrightarrow> scores_ok (detectDuplicatesAndPK_draft js df issues)"
  by (simp add: detectDuplicatesAndPK_draft_def Let_def scores_ok_append scores_ok_concat
        pk_issue_draft_scores scores_ok_single scores_ok_Nil)

subsection \<open>The city column\<close>

lemma df_city_columns: "columns df_city = [''city'']"
  by (simp add: df_city_def)

lemma df_city_values: "df_values df_city = [[Str ''New''], [Str ''New York''], [Str ''York'']]"
  by (simp add: df_city_def)

lemma df_city_series: "seriesValues df_city ''city'' = [Str ''New'', Str ''New York'', Str ''York'']"
  by (simp add: seriesValues_def df_city_def nth_cell_def)

lemma df_city_type: "inferColumnType js1 [Str ''New'', Str ''New York'', Str ''York''] = ''string''"
  by (simp add: inferColumnType_def non_null_def trim_def is_space_def js1_def isValidDate_def
        is_decimal_def is_digit_def Let_def)

lemma df_city_clusters:
  "column_clusters js1 [Str ''New'', Str ''New York'', Str ''York''] =
     [[''New'', ''New York''], [''York'', ''New York'']]"
  by (simp add: column_clusters_def new_Set_def js1_def CONFIG_def)

lemma df_city_categorical_issue:
  "categorical_issue js1 df_city ''city'' =
     [issue ''column'' (Some ''city'') [] ''categorical_inconsistency'' ''medium'' 0.6
        (Clusters [[''New'', ''New York''], [''York'', ''New York'']]) (Some ''map_or_standardize'')]"
  by (simp add: categorical_issue_def df_city_series df_city_type df_city_clusters new_Set_def)

lemma df_city_detectMissing: "detectMissing js1 df_city [] = []"
  by (simp add: detectMissing_def df_city_columns df_city_values missing_column_issue_def
        missing_row_issue_def df_city_series isMissing_def trim_def is_space_def toLowerCase_def
        indices_where_def CONFIG_def)

lemma df_city_detectDuplicatesAndPK:
  "detectDuplicatesAndPK js1 df_city [] =
     [issue ''column'' (Some ''city'') [] ''pk_candidate'' ''low'' 1 (UniqueFraction 1) None]"
  by (simp add: detectDuplicatesAndPK_def df_city_columns df_city_values pk_issue_def df_city_series
        new_Set_def shape0_def non_null_def trim_def is_space_def CONFIG_def js1_def)

lemma df_city_runOutliers: "runOutliers js1 df_city xs = xs"
  by (simp add: runOutliers_def df_city_columns df_city_series df_city_type)

lemma df_city_detectDateParsing: "detectDateParsing js1 df_city xs = xs"
  by (simp add: detectDateParsing_def date_issue_def df_city_columns df_city_series df_city_type)

lemma df_city_detectSuspiciousText: "detectSuspiciousText js1 df_city xs = xs"
  by (simp add: detectSuspiciousText_def text_issue_def df_city_columns df_city_series df_city_type
        indices_where_def)

lemma df_city_runAll:
  "snd (runAll js1 df_city) =
     [issue ''column'' (Some ''city'') [] ''pk_candidate'' ''low'' 1 (UniqueFraction 1) None,
      issue ''column'' (Some ''city'') [] ''categorical_inconsistency'' ''medium'' 0.6
        (Clusters [[''New'', ''New York''], [''York'', ''New York'']]) (Some ''map_or_standardize'')]"
  by (simp add: runAll_def df_city_detectMissing df_city_detectDuplicatesAndPK df_city_runOutliers
        df_city_detectDateParsing df_city_detectSuspiciousText detectCategoricalInconsistency_def
        df_city_columns df_city_categorical_issue)

text \<open>
  C9. Every issue that \<open>runAll\<close> returns, from any of the detectors, has its score in the
  closed interval from 0 to 1.
\<close>

theorem runAll_scores_in_unit_interval:
  "\<forall>i \<in> set (snd (runAll js df)). 0 \<le> score i \<and> score i \<le> 1"
  using runAll_scores_ok [of js df] by (simp add: scores_ok_def list_all_iff)

theorem runAll_scores_in_unit_interval_witness:
  "snd (runAll js1 df_city) \<noteq> [] \<and>
   0 \<le> score (hd (snd (runAll js1 df_city))) \<and> score (hd (snd (runAll js1 df_city))) \<le> 1 \<and>
   0 \<le> score (last (snd (runAll js1 df_city))) \<and> score (last (snd (runAll js1 df_city))) \<le> 1"
proof -
  have ne: "snd (runAll js1 df_city) \<noteq> []"
    by (simp add: df_city_runAll)
  then have "hd (snd (runAll js1 df_city)) \<in> set (snd (runAll js1 df_city))"
    and "last (snd (runAll js1 df_city)) \<in> set (snd (runAll js1 df_city))"
    by simp_all
  with runAll_scores_in_unit_interval [of js1 df_city] ne show ?thesis
    by blast
qed

subsection \<open>Categorical clusters\<close>

text \<open>
  C5. On the column New, New York, York the clustering pass puts \<open>New York\<close> into two
  clusters: it is a match of \<open>New\<close> and, although already marked used, again of \<open>York\<close>.
\<close>

theorem detectCategoricalInconsistency_value_in_two_clusters:
  "detectCategoricalInconsistency js1 df_city [] =
     [issue ''column'' (Some ''city'') [] ''categorical_inconsistency'' ''medium'' 0.6
        (Clusters [[''New'', ''New York''], [''York'', ''New York'']]) (Some ''map_or_standardize'')]"
  by (simp add: detectCategoricalInconsistency_def df_city_columns df_city_categorical_issue)

subsection \<open>Outliers\<close>

lemma indices_where_eq: "indices_where p xs = filter (\<lambda>i. p (xs ! i)) [0..<length xs]"
proof -
  have "enumerate 0 xs = map (\<lambda>i. (i, xs ! i)) [0..<length xs]"
    by (rule nth_equalityI) (simp_all add: nth_enumerate_eq)
  then show ?thesis
    by (simp add: indices_where_def filter_map o_def)
qed

lemma out_of_range_iff:
  "out_of_range lo hi n \<longleftrightarrow> (\<exists>x. n = Fin x \<and> (x < lo \<or> x > hi))"
  by (cases n) simp_all

text \<open>
  The detector of part_001 does what C1 says: with five or more numeric values, \<open>Q1\<close>
  and \<open>Q3\<close> are the sorted values at \<open>n div 4\<close> and \<open>3n div 4\<close>, and the rows counted as
  outliers are exactly those whose value is a number outside \<open>[Q1 - 1.5 iqr, Q3 + 1.5 iqr]\<close>.
\<close>

lemma detectOutliersIQR_flags_exactly:
  assumes "5 \<le> length (numbers_of (map (Number js) (seriesValues df col)))"
  shows "detectOutliersIQR js df col issues =
     (let arr = sort (numbers_of (map (Number js) (seriesValues df col)));
          Q1 = arr ! (length arr div 4);
          Q3 = arr ! ((3 * length arr) div 4);
          lo = Q1 - 1.5 * (Q3 - Q1);
          hi = Q3 + 1.5 * (Q3 - Q1);
          original = seriesValues df col;
          outliers = filter (\<lambda>i. \<exists>x. Number js (original ! i) = Fin x \<and> (x < lo \<or> x > hi))
                       [0..<length original]
      in if outliers = [] then issues
         else issues @ [issue ''column'' (Some col) (take 10 outliers) ''outlier_iqr'' ''medium''
                          (real (length outliers) / real (shape0 df))
                          (OutlierEvidence lo hi (length outliers)) (Some ''review_or_cap'')])"
  using assms
  by (simp add: detectOutliersIQR_def iqr_bounds_eq quartile1_index quartile3_index CONFIG_def
        indices_where_eq out_of_range_iff Let_def)

lemma detectOutliersIQR_example:
  "detectOutliersIQR js (df_x [1, 2, 3, 4, 5, 100]) ''x'' [] =
     [issue ''column'' (Some ''x'') [5] ''outlier_iqr'' ''medium'' (1 / 6)
        (OutlierEvidence (- 2.5) 9.5 1) (Some ''review_or_cap'')]"
  by (simp add: detectOutliersIQR_def df_x_def seriesValues_def nth_cell_def iqr_bounds_def
        quartile1_def quartile3_def CONFIG_def indices_where_def shape0_def Let_def eval_nat_numeral)

lemma quartiles_of_one_to_ten:
  "quartile1 [1, 2, 3, 4, 5, 6, 7, 8, 9, 10] = 3 \<and> quartile3 [1, 2, 3, 4, 5, 6, 7, 8, 9, 10] = 8"
  by (simp add: quartile1_def quartile3_def)

lemma unreached_bounds_draft_example:
  "unreached_bounds_draft 1.5 [1, 2, 3, 4, 5, 100] = (- 2.5, 0.5) \<and>
   iqr_bounds 1.5 [1, 2, 3, 4, 5, 100] = (- 2.5, 9.5)"
  by (simp add: unreached_bounds_draft_def iqr_bounds_def quartile1_def quartile3_def)

text \<open>The detector of Analyzer/Analyzer.js never adds an issue: it returns early or throws.\<close>

lemma detectOutliersIQR_draft_never_flags:
  "detectOutliersIQR_draft js df col issues = Inr issues \<or>
   detectOutliersIQR_draft js df col issues = Inl TypeError"
  by (simp add: detectOutliersIQR_draft_def Let_def)

text \<open>
  C1. The detector of Analyzer/Analyzer.js, on the column 1, 2, 3, 4, 5, 100, throws a
  TypeError where it reads the first quartile: it emits no issue, so 100 is not flagged.
\<close>

theorem detectOutliersIQR_draft_throws:
  "detectOutliersIQR_draft js (df_x [1, 2, 3, 4, 5, 100]) ''x'' [] = Inl TypeError"
  by (simp add: detectOutliersIQR_draft_def df_x_def seriesValues_def nth_cell_def dropNa_def)

section \<open>Properties of the transformations on a store\<close>

lemma map_copy_h_frame:
  "map_copy_h cb h ps c = (h', res) \<Longrightarrow>
     take (length h) h' = h \<and> length h \<le> length h' \<and>
     (\<forall>copies c'. res = Inr (copies, c') \<longrightarrow>
        length copies = length ps \<and> distinct copies \<and>
        (\<forall>q \<in> set copies. length h \<le> q \<and> q < length h'))"
proof (induction ps arbitrary: h c h' res)
  case Nil
  then show ?case by auto
next
  case (Cons p ps)
  let ?h1 = "h @ [Obj (object_at h p)]"
  show ?case
  proof (cases "cb (object_at ?h1 (length h))")
    case (Inl e)
    with Cons.prems show ?thesis by (auto simp: Let_def)
  next
    case (Inr cd)
    obtain copy' d where cd: "cd = (copy', d)" by (cases cd)
    let ?h2 = "h @ [Obj copy']"
    have upd: "?h1[length h := Obj copy'] = ?h2" by simp
    obtain h2 res2 where rec: "map_copy_h cb ?h2 ps (c + d) = (h2, res2)"
      by (cases "map_copy_h cb ?h2 ps (c + d)")
    from Cons.IH [OF rec] have
      pre: "take (Suc (length h)) h2 = ?h2" and len: "Suc (length h) \<le> length h2" and
      cop: "\<And>copies c'. res2 = Inr (copies, c') \<Longrightarrow>
              length copies = length ps \<and> distinct copies \<and>
              (\<forall>q \<in> set copies. Suc (length h) \<le> q \<and> q < length h2)"
      by auto
    have "take (length h) h2 = take (length h) (take (Suc (length h)) h2)"
      by (simp add: min_def)
    also have "\<dots> = h" by (simp add: pre)
    finally have pre': "take (length h) h2 = h" .
    from Cons.prems Inr cd rec upd have out: "h' = h2"
      "res = (case res2 of Inl e \<Rightarrow> Inl e | Inr (copies, c') \<Rightarrow> Inr (length h # copies, c'))"
      by (auto simp: Let_def split: sum.splits)
    show ?thesis
    proof (cases res2)
      case (Inl e)
      with pre' len out show ?thesis by simp
    next
      case (Inr cc)
      obtain copies c' where cc: "cc = (copies, c')" by (cases cc)
      from cop [of copies c'] Inr cc have
        c1: "length copies = length ps" and c2: "distinct copies" and
        c3: "\<forall>q \<in> set copies. Suc (length h) \<le> q \<and> q < length h2"
        by auto
      from c3 have "length h \<notin> set copies" by auto
      with pre' len out Inr cc c1 c2 c3 show ?thesis by auto
    qed
  qed
qed

lemma array_at_append_new: "array_at (h @ [Arr ps]) (length h) = ps"
  by (simp add: array_at_def)

lemma records_map_h_frame:
  assumes "records_map_h cb mk h a = (h', res)"
  shows "unchanged h h' \<and>
     (\<forall>a' ev. res = Inr (a', ev) \<longrightarrow> fresh_copies h h' a' (length (array_at h a)))"
proof -
  obtain h1 res1 where m: "map_copy_h cb h (array_at h a) 0 = (h1, res1)"
    by (cases "map_copy_h cb h (array_at h a) 0")
  from map_copy_h_frame [OF m] have
    pre: "take (length h) h1 = h" and len: "length h \<le> length h1" and
    cop: "\<And>copies c'. res1 = Inr (copies, c') \<Longrightarrow>
            length copies = length (array_at h a) \<and> distinct copies \<and>
            (\<forall>q \<in> set copies. length h \<le> q \<and> q < length h1)"
    by auto
  show ?thesis
  proof (cases res1)
    case (Inl e)
    with assms m pre show ?thesis by (auto simp: records_map_h_def unchanged_def)
  next
    case (Inr cc)
    obtain copies c' where cc: "cc = (copies, c')" by (cases cc)
    from assms m Inr cc have out: "h' = h1 @ [Arr copies]" "res = Inr (length h1, mk c')"
      by (simp_all add: records_map_h_def)
    from cop [of copies c'] Inr cc have
      c1: "length copies = length (array_at h a)" and c2: "distinct copies" and
      c3: "\<forall>q \<in> set copies. length h \<le> q \<and> q < length h1"
      by auto
    have "unchanged h h'" using pre len out by (simp add: unchanged_def)
    moreover have "fresh_copies h h' (length h1) (length (array_at h a))"
      using len c1 c2 c3 out
      by (auto simp: fresh_copies_def array_at_append_new list_all_iff)
    ultimately show ?thesis using out by simp
  qed
qed

lemma ClipOutliersIQR_apply_h_frame:
  assumes "ClipOutliersIQR_apply_h js p h records = (h', res)"
  shows "unchanged h h' \<and>
     (\<forall>a' ev. res = Inr (a', ev) \<longrightarrow>
        (if length (clip_nums js (clip_column p) (contents h records)) < 5 \<or>
            clip_method p \<notin> {Undefined, Str ''clip'', Str ''flag'', Str ''remove''}
         then a' = records \<and> h' = h
         else if clip_method p = Str ''remove''
         then length h \<le> a' \<and> a' < length h' \<and> subseq (array_at h' a') (array_at h records)
         else fresh_copies h h' a' (length (array_at h records))))"
proof (cases "length (clip_nums js (clip_column p) (contents h records)) < 5")
  case True
  with assms show ?thesis
    by (auto simp: ClipOutliersIQR_apply_h_def Let_def unchanged_def)
next
  case ge5: False
  obtain lo hi where b: "clip_bounds (case clip_k p of None \<Rightarrow> 1.5 | Some k' \<Rightarrow> k')
      (sort (clip_nums js (clip_column p) (contents h records))) = (lo, hi)"
    by (cases "clip_bounds (case clip_k p of None \<Rightarrow> 1.5 | Some k' \<Rightarrow> k')
      (sort (clip_nums js (clip_column p) (contents h records)))")
  consider (clip) "clip_method p = Undefined \<or> clip_method p = Str ''clip''"
    | (flag) "clip_method p = Str ''flag''"
    | (remove) "clip_method p = Str ''remove''"
    | (other) "clip_method p \<notin> {Undefined, Str ''clip'', Str ''flag'', Str ''remove''}"
    by auto
  then show ?thesis
  proof cases
    case clip
    with assms ge5 b have "records_map_h (\<lambda>r. Inr (clip_cb js (clip_column p) lo hi r))
        (ClipEvidence (Str ''clip'') lo hi) h records = (h', res)"
      by (auto simp: ClipOutliersIQR_apply_h_def Let_def)
    from records_map_h_frame [OF this] clip ge5 show ?thesis by auto
  next
    case flag
    with assms ge5 b have "records_map_h
        (\<lambda>r. Inr (flag_cb js (clip_column p) (case flag_column_name p of None \<Rightarrow> ''_outliers'' | Some f \<Rightarrow> f) lo hi r))
        (FlagEvidence (Str ''flag'') lo hi) h records = (h', res)"
      by (auto simp: ClipOutliersIQR_apply_h_def Let_def)
    from records_map_h_frame [OF this] flag ge5 show ?thesis by auto
  next
    case remove
    with assms ge5 b show ?thesis
      by (auto simp: ClipOutliersIQR_apply_h_def Let_def unchanged_def array_at_append_new)
  next
    case other
    with assms ge5 b show ?thesis
      by (auto simp: ClipOutliersIQR_apply_h_def Let_def unchanged_def)
  qed
qed


subsection \<open>The store model agrees with the value model\<close>

lemma object_at_append: "p < length h \<Longrightarrow> object_at (h @ xs) p = object_at h p"
  by (simp add: object_at_def nth_append)

lemma object_at_prefix:
  assumes "take (length h) h' = h" and "p < length h"
  shows "object_at h' p = object_at h p"
proof -
  from assms(1) have "h' = h @ drop (length h) h'"
    by (metis append_take_drop_id)
  then have "object_at h' p = object_at (h @ drop (length h) h') p" by simp
  with assms(2) show ?thesis by (simp add: object_at_append)
qed

lemma map_copy_h_refines:
  assumes "map_copy_h cb h ps c = (h', res)" and "\<forall>p \<in> set ps. p < length h"
  shows "map_count cb (map (object_at h) ps) c =
     (case res of Inl e \<Rightarrow> Inl e | Inr (copies, c') \<Rightarrow> Inr (map (object_at h') copies, c'))"
  using assms
proof (induction ps arbitrary: h c h' res)
  case Nil
  then show ?case by auto
next
  case (Cons p ps)
  let ?h1 = "h @ [Obj (object_at h p)]"
  have copy: "object_at ?h1 (length h) = object_at h p"
    by (simp add: object_at_def)
  show ?case
  proof (cases "cb (object_at h p)")
    case (Inl e)
    with Cons.prems copy show ?thesis by (auto simp: Let_def)
  next
    case (Inr cd)
    obtain copy' d where cd: "cd = (copy', d)" by (cases cd)
    let ?h2 = "h @ [Obj copy']"
    have upd: "?h1[length h := Obj copy'] = ?h2" by simp
    obtain h2 res2 where rec: "map_copy_h cb ?h2 ps (c + d) = (h2, res2)"
      by (cases "map_copy_h cb ?h2 ps (c + d)")
    from Cons.prems(2) have small: "\<forall>q \<in> set ps. q < length ?h2" by auto
    from Cons.prems(2) have same: "map (object_at ?h2) ps = map (object_at h) ps"
      by (auto simp: object_at_append)
    from Cons.IH [OF rec small] same have ih:
      "map_count cb (map (object_at h) ps) (c + d) =
         (case res2 of Inl e \<Rightarrow> Inl e | Inr (copies, c') \<Rightarrow> Inr (map (object_at h2) copies, c'))"
      by simp
    from map_copy_h_frame [OF rec] have pre: "take (length ?h2) h2 = ?h2" by blast
    have here: "object_at h2 (length h) = copy'"
      using object_at_prefix [OF pre, of "length h"] by (simp add: object_at_def)
    from Cons.prems(1) Inr cd rec upd copy have out: "h' = h2"
      "res = (case res2 of Inl e \<Rightarrow> Inl e | Inr (copies, c') \<Rightarrow> Inr (length h # copies, c'))"
      by (auto simp: Let_def split: sum.splits)
    show ?thesis
      using Inr cd ih out here by (auto split: sum.splits)
  qed
qed

lemma records_map_h_refines:
  assumes "records_map_h cb mk h a = (h', res)" and "\<forall>p \<in> set (array_at h a). p < length h"
  shows "(case map_count cb (contents h a) 0 of
            Inl e \<Rightarrow> Inl e
          | Inr (newRecords, changed) \<Rightarrow> Inr (newRecords, mk changed)) =
         (case res of Inl e \<Rightarrow> Inl e | Inr (a', ev) \<Rightarrow> Inr (contents h' a', ev))"
proof -
  obtain h1 res1 where m: "map_copy_h cb h (array_at h a) 0 = (h1, res1)"
    by (cases "map_copy_h cb h (array_at h a) 0")
  note r = map_copy_h_refines [OF m assms(2)]
  from map_copy_h_frame [OF m] have
    cop: "\<And>copies c'. res1 = Inr (copies, c') \<Longrightarrow> \<forall>q \<in> set copies. q < length h1"
    by auto
  show ?thesis
  proof (cases res1)
    case (Inl e)
    with assms(1) m r show ?thesis by (auto simp: records_map_h_def contents_def)
  next
    case (Inr cc)
    obtain copies c' where cc: "cc = (copies, c')" by (cases cc)
    from assms(1) m Inr cc have out: "h' = h1 @ [Arr copies]" "res = Inr (length h1, mk c')"
      by (simp_all add: records_map_h_def)
    from cop [of copies c'] Inr cc have "map (object_at (h1 @ [Arr copies])) copies = map (object_at h1) copies"
      by (auto simp: object_at_append)
    with r Inr cc out show ?thesis
      by (simp add: contents_def array_at_append_new)
  qed
qed

lemma apply_h_refines:
  assumes "apply_h js t h records = (h', res)" and "\<forall>p \<in> set (array_at h records). p < length h"
  shows "apply_v js t (contents h records) =
     (case res of Inl e \<Rightarrow> Inl e | Inr (a', ev) \<Rightarrow> Inr (contents h' a', ev))"
proof (cases t)
  case (VCoerceNumeric column)
  with assms(1) have "records_map_h (\<lambda>r. Inr (coerce_numeric_cb js column r))
      (CoerceEvidence (map (\<lambda>r. get_cell r column) (take 5 (contents h records)))) h records = (h', res)"
    by (simp add: CoerceNumeric_apply_h_def)
  from records_map_h_refines [OF this assms(2)] VCoerceNumeric show ?thesis
    by (simp add: CoerceNumeric_apply_def)
next
  case (VCoerceDatetime column)
  with assms(1) have "records_map_h (coerce_datetime_cb js column)
      (CoerceEvidence (map (\<lambda>r. get_cell r column) (take 5 (contents h records)))) h records = (h', res)"
    by (simp add: CoerceDatetime_apply_h_def)
  from records_map_h_refines [OF this assms(2)] VCoerceDatetime show ?thesis
    by (simp add: CoerceDatetime_apply_def)
next
  case (VFillMissing p)
  show ?thesis
  proof (cases "compute_fill js p (contents h records)")
    case (Inl e)
    with assms(1) VFillMissing show ?thesis
      by (auto simp: FillMissing_apply_h_def FillMissing_apply_def)
  next
    case (Inr fillValue)
    with assms(1) VFillMissing have "records_map_h (\<lambda>r. Inr (fill_missing_cb (fill_column p) fillValue r))
        (\<lambda>changed. FillEvidence (map (\<lambda>r. get_cell r (fill_column p)) (take 5 (contents h records))) changed fillValue)
        h records = (h', res)"
      by (simp add: FillMissing_apply_h_def)
    from records_map_h_refines [OF this assms(2)] VFillMissing Inr show ?thesis
      by (simp add: FillMissing_apply_def)
  qed
next
  case (VClipOutliersIQR p)
  show ?thesis
  proof (cases "length (clip_nums js (clip_column p) (contents h records)) < 5")
    case True
    with assms(1) VClipOutliersIQR show ?thesis
      by (auto simp: ClipOutliersIQR_apply_h_def ClipOutliersIQR_apply_def Let_def)
  next
    case ge5: False
    obtain lo hi where b: "clip_bounds (case clip_k p of None \<Rightarrow> 1.5 | Some k' \<Rightarrow> k')
        (sort (clip_nums js (clip_column p) (contents h records))) = (lo, hi)"
      by (cases "clip_bounds (case clip_k p of None \<Rightarrow> 1.5 | Some k' \<Rightarrow> k')
        (sort (clip_nums js (clip_column p) (contents h records)))")
    define m where "m = (if clip_method p = Undefined then Str ''clip'' else clip_method p)"
    from ge5 b have "ClipOutliersIQR_apply_h js p h records =
         (if m = Str ''clip'' then
            records_map_h (\<lambda>r. Inr (clip_cb js (clip_column p) lo hi r)) (ClipEvidence m lo hi) h records
          else if m = Str ''flag'' then
            records_map_h
              (\<lambda>r. Inr (flag_cb js (clip_column p)
                     (case flag_column_name p of None \<Rightarrow> ''_outliers'' | Some f \<Rightarrow> f) lo hi r))
              (FlagEvidence m lo hi) h records
          else if m = Str ''remove'' then
            (h @ [Arr (filter (\<lambda>r. remove_keeps js (clip_column p) lo hi (object_at h r)) (array_at h records))],
             Inr (length h, RemoveEvidence m lo hi
               (length (array_at h records) -
                length (filter (\<lambda>r. remove_keeps js (clip_column p) lo hi (object_at h r)) (array_at h records)))))
          else (h, Inr (records, Reason ''unknown_method'')))"
      unfolding ClipOutliersIQR_apply_h_def Let_def m_def [symmetric] by simp
    with assms(1) VClipOutliersIQR have h_eq:
      "(h', res) =
         (if m = Str ''clip'' then
            records_map_h (\<lambda>r. Inr (clip_cb js (clip_column p) lo hi r)) (ClipEvidence m lo hi) h records
          else if m = Str ''flag'' then
            records_map_h
              (\<lambda>r. Inr (flag_cb js (clip_column p)
                     (case flag_column_name p of None \<Rightarrow> ''_outliers'' | Some f \<Rightarrow> f) lo hi r))
              (FlagEvidence m lo hi) h records
          else if m = Str ''remove'' then
            (h @ [Arr (filter (\<lambda>r. remove_keeps js (clip_column p) lo hi (object_at h r)) (array_at h records))],
             Inr (length h, RemoveEvidence m lo hi
               (length (array_at h records) -
                length (filter (\<lambda>r. remove_keeps js (clip_column p) lo hi (object_at h r)) (array_at h records)))))
          else (h, Inr (records, Reason ''unknown_method'')))"
      by (simp only: apply_h.simps)
    have tv: "apply_v js t (contents h records) = ClipOutliersIQR_apply js p (contents h records)"
      using VClipOutliersIQR by simp
    from ge5 b have v_eq:
      "ClipOutliersIQR_apply js p (contents h records) =
         (if m = Str ''clip'' then
            (case map_count (\<lambda>r. Inr (clip_cb js (clip_column p) lo hi r)) (contents h records) 0 of
               Inl e \<Rightarrow> Inl e
             | Inr (newRecords, changed) \<Rightarrow> Inr (newRecords, ClipEvidence m lo hi changed))
          else if m = Str ''flag'' then
            (case map_count
                (\<lambda>r. Inr (flag_cb js (clip_column p)
                       (case flag_column_name p of None \<Rightarrow> ''_outliers'' | Some f \<Rightarrow> f) lo hi r))
                (contents h records) 0 of
               Inl e \<Rightarrow> Inl e
             | Inr (newRecords, changed) \<Rightarrow> Inr (newRecords, FlagEvidence m lo hi changed))
          else if m = Str ''remove'' then
            Inr (filter (remove_keeps js (clip_column p) lo hi) (contents h records),
                 RemoveEvidence m lo hi
                   (length (contents h records) -
                    length (filter (remove_keeps js (clip_column p) lo hi) (contents h records))))
          else Inr (contents h records, Reason ''unknown_method''))"
      unfolding ClipOutliersIQR_apply_def Let_def m_def [symmetric] by simp
    consider (clip) "m = Str ''clip''"
      | (flag) "m \<noteq> Str ''clip''" "m = Str ''flag''"
      | (remove) "m \<noteq> Str ''clip''" "m \<noteq> Str ''flag''" "m = Str ''remove''"
      | (other) "m \<noteq> Str ''clip''" "m \<noteq> Str ''flag''" "m \<noteq> Str ''remove''"
      by auto
    then show ?thesis
    proof cases
      case clip
      with h_eq have "records_map_h (\<lambda>r. Inr (clip_cb js (clip_column p) lo hi r))
          (ClipEvidence m lo hi) h records = (h', res)"
        by simp
      from records_map_h_refines [OF this assms(2)] clip show ?thesis
        by (simp add: tv v_eq)
    next
      case flag
      with h_eq have "records_map_h
          (\<lambda>r. Inr (flag_cb js (clip_column p)
                 (case flag_column_name p of None \<Rightarrow> ''_outliers'' | Some f \<Rightarrow> f) lo hi r))
          (FlagEvidence m lo hi) h records = (h', res)"
        by simp
      from records_map_h_refines [OF this assms(2)] flag show ?thesis
        by (simp add: tv v_eq)
    next
      case remove
      let ?P = "\<lambda>r. remove_keeps js (clip_column p) lo hi (object_at h r)"
      have same: "map (object_at (h @ [Arr ks])) (filter ?P (array_at h records)) =
            map (object_at h) (filter ?P (array_at h records))" for ks
        using assms(2) by (auto simp: object_at_append)
      have flt: "filter (remove_keeps js (clip_column p) lo hi) (contents h records) =
            map (object_at h) (filter ?P (array_at h records))"
        by (simp add: contents_def filter_map o_def)
      from h_eq remove have out:
        "h' = h @ [Arr (filter ?P (array_at h records))]"
        "res = Inr (length h, RemoveEvidence m lo hi
               (length (array_at h records) - length (filter ?P (array_at h records))))"
        by simp_all
      have len: "length (contents h records) = length (array_at h records)"
        by (simp add: contents_def)
      show ?thesis
        unfolding tv v_eq using remove
        by (simp add: out flt len) (simp add: contents_def array_at_append_new same)
    next
      case other
      with h_eq show ?thesis
        by (simp add: tv v_eq)
    qed
  qed
qed


subsection \<open>Aliasing\<close>

text \<open>
  C6, as the claim states it, fails in two places. In clip mode on a column with fewer
  than five numeric values \<open>apply\<close> returns the caller's array itself (address 1 of
  \<open>heap1\<close>), not a new sequence; and in remove mode on the column 1, 2, 3, 4, 5 the new
  array holds all five original records, which is no strict subset.
\<close>

theorem apply_h_returns_input_counterexample:
  "apply_h js0 (VClipOutliersIQR \<lparr>clip_column = ''x'', clip_k = None, clip_method = Str ''clip'',
        flag_column_name = None\<rparr>) heap1 1
     = (heap1, Inr (1, Reason ''not_enough_numeric'')) \<and>
   apply_h js0 (VClipOutliersIQR \<lparr>clip_column = ''x'', clip_k = None, clip_method = Str ''remove'',
        flag_column_name = None\<rparr>) heap5 5
     = (heap5 @ [Arr [0, 1, 2, 3, 4]], Inr (6, RemoveEvidence (Str ''remove'') (- 1) 5 0)) \<and>
   array_at heap5 5 = [0, 1, 2, 3, 4]"
  by (simp add: ClipOutliersIQR_apply_h_def clip_nums_def contents_def array_at_def object_at_def
        heap1_def heap5_def get_cell_def js0_def clip_bounds_def quartile1_def quartile3_def
        remove_keeps_def Let_def)

text \<open>
  C6, amended. \<open>apply\<close> leaves every array and every record of the caller's store as it
  was, also when it throws. When it returns: ClipOutliersIQR on fewer than five numeric
  values, or with a method that is none of clip, flag and remove, returns the caller's
  array itself and allocates nothing; in remove mode it returns a new array that holds
  a sub-sequence (possibly all) of the original records themselves; every other
  transformation returns a new array of new records, one for each record of the input.
\<close>

theorem apply_h_frame:
  assumes "apply_h js t h records = (h', res)"
  shows "unchanged h h' \<and>
     (\<forall>a' ev. res = Inr (a', ev) \<longrightarrow>
        (case t of
           VClipOutliersIQR p \<Rightarrow>
             if length (clip_nums js (clip_column p) (contents h records)) < 5 \<or>
                clip_method p \<notin> {Undefined, Str ''clip'', Str ''flag'', Str ''remove''}
             then a' = records \<and> h' = h
             else if clip_method p = Str ''remove''
             then length h \<le> a' \<and> a' < length h' \<and> subseq (array_at h' a') (array_at h records)
             else fresh_copies h h' a' (length (array_at h records))
         | _ \<Rightarrow> fresh_copies h h' a' (length (array_at h records))))"
proof (cases t)
  case (VCoerceNumeric column)
  with assms records_map_h_frame show ?thesis
    by (simp add: CoerceNumeric_apply_h_def Let_def)
next
  case (VCoerceDatetime column)
  with assms records_map_h_frame show ?thesis
    by (simp add: CoerceDatetime_apply_h_def Let_def)
next
  case (VFillMissing p)
  show ?thesis
  proof (cases "compute_fill js p (contents h records)")
    case (Inl e)
    with assms VFillMissing show ?thesis
      by (auto simp: FillMissing_apply_h_def unchanged_def)
  next
    case (Inr fillValue)
    with assms VFillMissing records_map_h_frame show ?thesis
      by (simp add: FillMissing_apply_h_def Let_def)
  qed
next
  case (VClipOutliersIQR p)
  with assms have "ClipOutliersIQR_apply_h js p h records = (h', res)" by simp
  from ClipOutliersIQR_apply_h_frame [OF this] show ?thesis
    unfolding VClipOutliersIQR variant.case .
qed

theorem apply_h_frame_witness:
  "apply_h js0 (VCoerceNumeric ''x'') heap1 1
     = (heap1 @ [Obj [''x'' \<mapsto> Null], Arr [2]], Inr (3, CoerceEvidence [Str ''abc''] 1)) \<and>
   unchanged heap1 (heap1 @ [Obj [''x'' \<mapsto> Null], Arr [2]]) \<and>
   fresh_copies heap1 (heap1 @ [Obj [''x'' \<mapsto> Null], Arr [2]]) 3 1"
proof -
  have run: "apply_h js0 (VCoerceNumeric ''x'') heap1 1
     = (heap1 @ [Obj [''x'' \<mapsto> Null], Arr [2]], Inr (3, CoerceEvidence [Str ''abc''] 1))"
    by (simp add: CoerceNumeric_apply_h_def records_map_h_def contents_def array_at_def
          object_at_def heap1_def get_cell_def coerce_numeric_cb_def isNaN_def js0_def Let_def)
  have len: "length (array_at heap1 1) = 1"
    by (simp add: array_at_def heap1_def)
  from apply_h_frame [OF run] run len show ?thesis
    by simp
qed

end
